theory Spec2Isabelle
  imports Complex_Main "HOL-Library.Sublist" "HOL-Library.Multiset"
begin

section \<open>Spot-termination enrichment (downtime-debugging/spot-termination.py)\<close>

text \<open>
  The script lists the spot instance requests of an account, keeps those terminated in the
  last \<open>LOOKBACK_MINUTES\<close>, counts them per region and per zone, and enriches every one of
  them with price, uptime, popularity and metadata fields plus a narrative.

  Conventions of the embedding:
  \<^item> a \<open>datetime\<close> is an \<open>int\<close>: microseconds since the epoch (UTC), the resolution of
    Python's \<open>datetime\<close>; a \<open>timedelta\<close> is a number of microseconds;
  \<^item> a Python \<open>float\<close> is the \<open>real\<close> number it denotes; comparing two floats compares
    these numbers, while the interpreter's operations that compute a float (\<open>-\<close>, \<open>/\<close>,
    \<open>**\<close>, \<open>sum\<close>, \<open>round\<close>, \<open>total_seconds\<close>, the rendering in an f-string) are
    parameters of the model, collected in a record;
  \<^item> a counter (\<open>len\<close>, \<open>sum(1 for ...)\<close>) is a \<open>nat\<close>;
  \<^item> a value read with \<open>d.get(k)\<close> is an \<open>option\<close>; a value read with \<open>d[k]\<close> is a plain
    field (the provider's responses carry these keys);
  \<^item> a call of the cloud provider either raises or returns: \<open>exn + 'a\<close>, and every request
    sent is appended to a log that is threaded through the run. The client checks the
    types of the parameters before it sends anything: \<open>None\<close> where the service expects
    a string raises \<open>ParamValidationError\<close> and sends no request.
\<close>

subsection \<open>Data\<close>

type_synonym time = int

definition timedelta_minutes :: "int \<Rightarrow> int" where
  "timedelta_minutes m = m * 60000000"

definition timedelta_hours :: "int \<Rightarrow> int" where
  "timedelta_hours h = h * 3600000000"

datatype exn = ClientError string | ParamValidationError string

text \<open>One element of \<open>response['SpotInstanceRequests']\<close>.\<close>

record spot_request =
  rq_InstanceId :: "string option"
  rq_SpotInstanceRequestId :: string
  rq_InstanceType :: string
  rq_LaunchedAvailabilityZone :: "string option"
  rq_SpotPrice :: real
  rq_State :: string
  rq_StatusCode :: string
  rq_StatusMessage :: string
  rq_StatusUpdateTime :: time
  rq_CreateTime :: time
  rq_Type :: "string option"
  rq_VpcId :: "string option"
  rq_SubnetId :: "string option"

text \<open>One element of \<open>response['SpotPriceHistory']\<close>.\<close>

record price_sample =
  Timestamp :: time
  ps_SpotPrice :: real

text \<open>
  One element of \<open>response['InstanceTypes']\<close>. \<open>NetworkInfo\<close> and
  \<open>NetworkPerformance\<close> are read with \<open>[...]\<close>: \<open>None\<close> here is a missing key, which
  raises \<open>KeyError\<close> in the source.
\<close>

record network_info =
  ni_NetworkPerformance :: "string option"
  ni_DefaultNetworkCardIndex :: "int option"

record instance_type_info =
  it_NetworkInfo :: "network_info option"
  it_SupportedUsageClasses :: "string list option"

text \<open>The \<open>ec2\<close> and \<open>sts\<close> clients: what each call answers.\<close>

record aws =
  get_caller_identity :: "exn + string"
  describe_spot_instance_requests :: "exn + spot_request list"
  describe_spot_price_history ::
    "string \<Rightarrow> string \<Rightarrow> time \<Rightarrow> time \<Rightarrow> exn + price_sample list"
  describe_instance_types :: "string \<Rightarrow> exn + instance_type_info list"
  describe_instance_type_offerings :: "string \<Rightarrow> string \<Rightarrow> exn + string list"
  describe_availability_zones :: "string \<Rightarrow> exn + (string \<times> string) list"

datatype api_call =
    GetCallerIdentity
  | DescribeSpotInstanceRequests
  | DescribeSpotPriceHistory string string time time
  | DescribeInstanceTypes string
  | DescribeInstanceTypeOfferings string string
  | DescribeAvailabilityZones string

type_synonym 'a io = "api_call list \<Rightarrow> (exn + 'a) \<times> api_call list"

text \<open>The dictionary \<open>enriched\<close> before and after \<open>enriched["Description"] = ...\<close>.\<close>

record enriched_core =
  InstanceId :: "string option"
  SpotInstanceRequestId :: string
  InstanceType :: string
  AvailabilityZone :: "string option"
  AvailabilityZoneId :: "string option"
  SpotPrice :: real
  SpotPriceAtLaunch :: real
  SpotPriceAtTermination :: real
  SpotPriceTrend :: real
  PriceVariance :: real
  CreateTime :: time
  TerminationTime :: time
  DayOfWeek :: string
  HourOfDay :: int
  IsWeekend :: bool
  UptimeMinutes :: real
  IsShortLived :: bool
  UptimeClass :: string
  State :: string
  StatusCode :: string
  StatusMessage :: string
  InstancePopularity :: nat
  NetworkPerformance :: "string option"
  NetworkCardIndex :: "int option"
  CpuCreditsType :: string
  PoolUtilizationClass :: string
  RegionDemandScore :: nat
  AZInterruptionRate :: nat
  SpotRequestType :: string
  VpcId :: "string option"
  SubnetId :: "string option"
  AccountId :: string
  Region :: string

record enriched = enriched_core +
  Description :: string

subsection \<open>Configuration\<close>

definition region :: string where
  "region = ''ap-south-1''"

definition LOOKBACK_MINUTES :: nat where
  "LOOKBACK_MINUTES = 180"

subsection \<open>Python built-ins\<close>

text \<open>
  The interpreter's float operations: \<open>x - y\<close>, \<open>x / y\<close>, \<open>x ** y\<close>, \<open>sum(xs)\<close>,
  \<open>round(x, ndigits)\<close>, \<open>timedelta.total_seconds()\<close> of a number of microseconds, and the
  text of a float in an f-string. They are not code of this repository.
\<close>

record py_float =
  float_sub :: "real \<Rightarrow> real \<Rightarrow> real"
  float_div :: "real \<Rightarrow> real \<Rightarrow> real"
  float_pow :: "real \<Rightarrow> real \<Rightarrow> real"
  float_sum :: "real list \<Rightarrow> real"
  float_round :: "real \<Rightarrow> nat \<Rightarrow> real"
  total_seconds :: "int \<Rightarrow> real"
  float_repr :: "real \<Rightarrow> string"

text \<open>\<open>d.get(k, default)\<close>.\<close>

definition dict_get :: "('k \<rightharpoonup> 'v) \<Rightarrow> 'k \<Rightarrow> 'v \<Rightarrow> 'v" where
  "dict_get d k dflt = (case d k of None \<Rightarrow> dflt | Some v \<Rightarrow> v)"

text \<open>\<open>str(n)\<close> of a non-negative integer.\<close>

definition digit_char :: "nat \<Rightarrow> char" where
  "digit_char d = ''0123456789'' ! d"

fun str_nat :: "nat \<Rightarrow> string" where
  "str_nat n = (if n < 10 then [digit_char n] else str_nat (n div 10) @ [digit_char (n mod 10)])"

text \<open>A value of an f-string field that may be \<open>None\<close>: Python prints \<open>None\<close>.\<close>

definition str_opt :: "string option \<Rightarrow> string" where
  "str_opt v = (case v of None \<Rightarrow> ''None'' | Some s \<Rightarrow> s)"

subsection \<open>Calls of the provider\<close>

definition get_account_id :: "aws \<Rightarrow> string io" where
  "get_account_id ec2 calls = (get_caller_identity ec2, calls @ [GetCallerIdentity])"

definition get_spot_instance_requests :: "aws \<Rightarrow> spot_request list io" where
  "get_spot_instance_requests ec2 calls =
     (describe_spot_instance_requests ec2, calls @ [DescribeSpotInstanceRequests])"

text \<open>
  No \<open>try\<close> here: an exception of the call leaves the function. \<open>AvailabilityZone\<close> is a
  string parameter of the service, so \<open>az = None\<close> is refused by the client.
\<close>

definition get_spot_price_history ::
  "aws \<Rightarrow> string \<Rightarrow> string option \<Rightarrow> time \<Rightarrow> time \<Rightarrow> price_sample list io" where
  "get_spot_price_history ec2 instance_type az start_time end_time calls =
     (case az of
        None \<Rightarrow> (Inl (ParamValidationError ''AvailabilityZone''), calls)
      | Some zone \<Rightarrow>
          (case describe_spot_price_history ec2 instance_type zone start_time end_time of
             Inl e \<Rightarrow> Inl e
           | Inr response \<Rightarrow> Inr (sort_key Timestamp response),
           calls @ [DescribeSpotPriceHistory instance_type zone start_time end_time]))"

text \<open>\<open>except Exception: return None, None\<close> covers the call, \<open>[0]\<close> and both keys.\<close>

definition get_network_performance ::
  "aws \<Rightarrow> string \<Rightarrow> api_call list \<Rightarrow> (string option \<times> int option) \<times> api_call list" where
  "get_network_performance ec2 instance_type calls =
     (case describe_instance_types ec2 instance_type of
        Inl e \<Rightarrow> (None, None)
      | Inr [] \<Rightarrow> (None, None)
      | Inr (it # _) \<Rightarrow>
          (case it_NetworkInfo it of
             None \<Rightarrow> (None, None)
           | Some net_info \<Rightarrow>
               (case ni_NetworkPerformance net_info of
                  None \<Rightarrow> (None, None)
                | Some perf \<Rightarrow> (Some perf, ni_DefaultNetworkCardIndex net_info))),
      calls @ [DescribeInstanceTypes instance_type])"

definition get_cpu_credit_type :: "aws \<Rightarrow> string \<Rightarrow> api_call list \<Rightarrow> string \<times> api_call list" where
  "get_cpu_credit_type ec2 instance_type calls =
     (case describe_instance_types ec2 instance_type of
        Inl e \<Rightarrow> ''unknown''
      | Inr [] \<Rightarrow> ''unknown''
      | Inr (it # _) \<Rightarrow>
          (case it_SupportedUsageClasses it of
             None \<Rightarrow> ''standard''
           | Some [] \<Rightarrow> ''unknown''
           | Some (c # _) \<Rightarrow> c),
      calls @ [DescribeInstanceTypes instance_type])"

text \<open>
  The filter values are strings for the service, so \<open>az = None\<close> is refused by the client
  here as well, and \<open>except Exception\<close> catches it.
\<close>

definition get_pool_utilization_class ::
  "aws \<Rightarrow> string \<Rightarrow> string option \<Rightarrow> api_call list \<Rightarrow> string \<times> api_call list" where
  "get_pool_utilization_class ec2 instance_type az calls =
     (case az of
        None \<Rightarrow> (''unknown'', calls)
      | Some zone \<Rightarrow>
          (case describe_instance_type_offerings ec2 instance_type zone of
             Inl e \<Rightarrow> ''unknown''
           | Inr offerings \<Rightarrow> (if offerings \<noteq> [] then ''available'' else ''unavailable''),
           calls @ [DescribeInstanceTypeOfferings instance_type zone]))"

text \<open>
  The dictionary comprehension \<open>{az['ZoneName']: az['ZoneId'] for az in ...}\<close>: of two
  entries with one name the later one stays. No \<open>try\<close> here either.
\<close>

definition get_az_id_mapping :: "aws \<Rightarrow> (string \<rightharpoonup> string) io" where
  "get_az_id_mapping ec2 calls =
     (case describe_availability_zones ec2 region of
        Inl e \<Rightarrow> Inl e
      | Inr zones \<Rightarrow> Inr (map_of (rev zones)),
      calls @ [DescribeAvailabilityZones region])"

subsection \<open>The narrative\<close>

definition generate_description :: "py_float \<Rightarrow> 'a enriched_core_scheme \<Rightarrow> string" where
  "generate_description py data =
     ''Instance '' @ str_opt (InstanceId data) @ '' (type '' @ InstanceType data
       @ '') was terminated because there was no available spot capacity in zone ''
       @ str_opt (AvailabilityZone data) @ ''. ''
     @ ''It had network performance of '' @ [CHR 0x27] @ str_opt (NetworkPerformance data)
       @ [CHR 0x27] @ '' and used '' @ [CHR 0x27] @ CpuCreditsType data @ [CHR 0x27]
       @ '' CPU credits. ''
     @ ''The spot price remained stable at '' @ float_repr py (SpotPriceAtLaunch data) @ '' USD. ''
     @ ''The instance lived for '' @ float_repr py (UptimeMinutes data) @ '' minutes (''
       @ [CHR 0x27] @ UptimeClass data @ [CHR 0x27] @ '' uptime). ''
     @ ''You launched '' @ str_nat (InstancePopularity data)
       @ '' similar spot instances in the past hour, indicating high demand in your account. ''
     @ ''In the past '' @ str_nat LOOKBACK_MINUTES @ '' minutes, your account had ''
       @ str_nat (RegionDemandScore data) @ '' spot terminations in region '' @ Region data
       @ '', with '' @ str_nat (AZInterruptionRate data) @ '' in AZ ''
       @ str_opt (AvailabilityZone data) @ '', showing capacity pressure. ''
     @ ''This was a '' @ [CHR 0x27] @ SpotRequestType data @ [CHR 0x27]
       @ '' spot request, meaning AWS did not retry after termination.''"

subsection \<open>The parts of one enrichment\<close>

text \<open>
  \<open>termination_time.astimezone(pytz.timezone('Asia/Kolkata'))\<close>: the zone has been five and
  a half hours ahead of UTC since 1945. \<open>day_index\<close> counts from Monday; day 0 of the epoch
  was a Thursday.
\<close>

definition local_time :: "time \<Rightarrow> int" where
  "local_time t = t + 19800000000"

definition hour_of_day :: "time \<Rightarrow> int" where
  "hour_of_day t = (local_time t mod 86400000000) div 3600000000"

definition day_index :: "time \<Rightarrow> nat" where
  "day_index t = nat ((local_time t div 86400000000 + 3) mod 7)"

definition day_of_week :: "time \<Rightarrow> string" where
  "day_of_week t =
     [''Monday'', ''Tuesday'', ''Wednesday'', ''Thursday'', ''Friday'', ''Saturday'', ''Sunday'']
       ! day_index t"

text \<open>Lines 134 to 137: the price metrics of a sorted price list.\<close>

definition spot_price_at_termination :: "real \<Rightarrow> real list \<Rightarrow> real" where
  "spot_price_at_termination spot_price prices = (if prices \<noteq> [] then last prices else spot_price)"

definition spot_price_at_launch :: "real \<Rightarrow> real list \<Rightarrow> real" where
  "spot_price_at_launch spot_price prices = (if prices \<noteq> [] then hd prices else spot_price)"

definition price_trend :: "py_float \<Rightarrow> real \<Rightarrow> real list \<Rightarrow> real" where
  "price_trend py spot_price prices =
     float_sub py (spot_price_at_termination spot_price prices)
                  (spot_price_at_launch spot_price prices)"

definition price_variance :: "py_float \<Rightarrow> real \<Rightarrow> real list \<Rightarrow> real" where
  "price_variance py spot_price prices =
     (if prices \<noteq> []
      then float_round py
             (float_pow py
                (float_div py
                   (float_sum py
                      (map (\<lambda>p. float_pow py
                                   (float_sub py p (spot_price_at_launch spot_price prices)) 2)
                         prices))
                   (real (length prices)))
                (1 / 2)) 6
      else 0)"

text \<open>Lines 140 to 142.\<close>

definition uptime_minutes :: "py_float \<Rightarrow> time \<Rightarrow> time \<Rightarrow> real" where
  "uptime_minutes py termination_time create_time =
     float_round py (float_div py (total_seconds py (termination_time - create_time)) 60) 2"

definition is_short_lived :: "real \<Rightarrow> bool" where
  "is_short_lived uptime \<longleftrightarrow> uptime < 60"

definition uptime_class :: "real \<Rightarrow> string" where
  "uptime_class uptime =
     (if uptime < 30 then ''VeryShort'' else if uptime < 120 then ''Short'' else ''Long'')"

text \<open>Lines 145 to 148: \<open>sum(1 for req in all_requests if ...)\<close>.\<close>

definition count_same_type :: "string \<Rightarrow> time \<Rightarrow> spot_request list \<Rightarrow> nat" where
  "count_same_type instance_type create_time all_requests =
     (let cutoff_time = create_time - timedelta_hours 1
      in sum_list (map (\<lambda>req. 1)
           (filter (\<lambda>req. rq_InstanceType req = instance_type \<and> cutoff_time \<le> rq_CreateTime req)
              all_requests)))"

subsection \<open>enrich_termination_data\<close>

text \<open>
  \<open>account_id\<close> is the module's global. The two calls without a \<open>try\<close> come first in
  the order of the source: the zone mapping (line 107), then the price history (line 131);
  an exception of either leaves the function.
\<close>

definition enrich_termination_data ::
  "aws \<Rightarrow> string \<Rightarrow> py_float \<Rightarrow> spot_request \<Rightarrow> spot_request list \<Rightarrow> nat \<Rightarrow> nat
     \<Rightarrow> enriched io" where
  "enrich_termination_data ec2 account_id py spot_request all_requests
       region_demand_score az_demand_score calls =
     (let instance_id = rq_InstanceId spot_request;
          instance_type = rq_InstanceType spot_request;
          az = rq_LaunchedAvailabilityZone spot_request
      in case get_az_id_mapping ec2 calls of
           (Inl e, calls1) \<Rightarrow> (Inl e, calls1)
         | (Inr az_id_mapping, calls1) \<Rightarrow>
             (let az_id = (case az of None \<Rightarrow> None | Some zone \<Rightarrow> az_id_mapping zone);
                  spot_price = rq_SpotPrice spot_request;
                  state = rq_State spot_request;
                  status_code = rq_StatusCode spot_request;
                  status_msg = rq_StatusMessage spot_request;
                  create_time = rq_CreateTime spot_request;
                  update_time = rq_StatusUpdateTime spot_request;
                  request_type = (case rq_Type spot_request of None \<Rightarrow> ''unknown'' | Some t \<Rightarrow> t);
                  vpc_id = rq_VpcId spot_request;
                  subnet_id = rq_SubnetId spot_request;
                  termination_time = update_time;
                  day = day_of_week termination_time;
                  hour = hour_of_day termination_time;
                  is_weekend = (day \<in> set [''Saturday'', ''Sunday'']);
                  price_start = termination_time - timedelta_hours 6;
                  price_end = termination_time
              in case get_spot_price_history ec2 instance_type az price_start price_end calls1 of
                   (Inl e, calls2) \<Rightarrow> (Inl e, calls2)
                 | (Inr price_history, calls2) \<Rightarrow>
                     (let prices = map ps_SpotPrice price_history;
                          uptime = uptime_minutes py termination_time create_time;
                          count = count_same_type instance_type create_time all_requests;
                          ((network_perf, net_card_index), calls3) =
                             get_network_performance ec2 instance_type calls2;
                          (cpu_credit_type, calls4) = get_cpu_credit_type ec2 instance_type calls3;
                          (pool_utilization, calls5) =
                             get_pool_utilization_class ec2 instance_type az calls4;
                          enriched =
                            \<lparr> InstanceId = instance_id,
                              SpotInstanceRequestId = rq_SpotInstanceRequestId spot_request,
                              InstanceType = instance_type,
                              AvailabilityZone = az,
                              AvailabilityZoneId = az_id,
                              SpotPrice = spot_price,
                              SpotPriceAtLaunch = spot_price_at_launch spot_price prices,
                              SpotPriceAtTermination = spot_price_at_termination spot_price prices,
                              SpotPriceTrend = float_round py (price_trend py spot_price prices) 6,
                              PriceVariance = price_variance py spot_price prices,
                              CreateTime = create_time,
                              TerminationTime = termination_time,
                              DayOfWeek = day,
                              HourOfDay = hour,
                              IsWeekend = is_weekend,
                              UptimeMinutes = uptime,
                              IsShortLived = is_short_lived uptime,
                              UptimeClass = uptime_class uptime,
                              State = state,
                              StatusCode = status_code,
                              StatusMessage = status_msg,
                              InstancePopularity = count,
                              NetworkPerformance = network_perf,
                              NetworkCardIndex = net_card_index,
                              CpuCreditsType = cpu_credit_type,
                              PoolUtilizationClass = pool_utilization,
                              RegionDemandScore = region_demand_score,
                              AZInterruptionRate = az_demand_score,
                              SpotRequestType = request_type,
                              VpcId = vpc_id,
                              SubnetId = subnet_id,
                              AccountId = account_id,
                              Region = region \<rparr>
                      in (Inr (enriched_core.extend enriched
                                 (enriched.fields (generate_description py enriched))),
                          calls5))))"

subsection \<open>The script (lines 195 to 226)\<close>

definition recent_terminated :: "time \<Rightarrow> spot_request list \<Rightarrow> spot_request list" where
  "recent_terminated cutoff_time spot_requests =
     filter (\<lambda>req. sublist ''terminated'' (rq_StatusCode req)
                   \<and> cutoff_time \<le> rq_StatusUpdateTime req) spot_requests"

text \<open>
  \<open>az_counter\<close> is keyed by what \<open>req.get('LaunchedAvailabilityZone')\<close> returns, and
  \<open>None\<close> is a key like any other.
\<close>

fun az_counter_loop ::
  "(string option \<rightharpoonup> nat) \<Rightarrow> spot_request list \<Rightarrow> (string option \<rightharpoonup> nat)" where
  "az_counter_loop az_counter [] = az_counter"
| "az_counter_loop az_counter (req # reqs) =
     (let az = rq_LaunchedAvailabilityZone req
      in az_counter_loop (az_counter(az \<mapsto> dict_get az_counter az 0 + 1)) reqs)"

fun enrich_loop ::
  "aws \<Rightarrow> string \<Rightarrow> py_float \<Rightarrow> spot_request list \<Rightarrow> nat \<Rightarrow> (string option \<rightharpoonup> nat)
     \<Rightarrow> spot_request list \<Rightarrow> enriched list \<Rightarrow> enriched list io" where
  "enrich_loop ec2 account_id py spot_requests region_demand_score az_counter
       [] termination_logs calls = (Inr termination_logs, calls)"
| "enrich_loop ec2 account_id py spot_requests region_demand_score az_counter
       (req # reqs) termination_logs calls =
     (let az = rq_LaunchedAvailabilityZone req;
          az_demand_score = dict_get az_counter az 0
      in case enrich_termination_data ec2 account_id py req spot_requests
                region_demand_score az_demand_score calls of
           (Inl e, calls') \<Rightarrow> (Inl e, calls')
         | (Inr enriched_data, calls') \<Rightarrow>
             enrich_loop ec2 account_id py spot_requests region_demand_score az_counter
               reqs (termination_logs @ [enriched_data]) calls')"

text \<open>
  The module from top to bottom; \<open>now\<close> is what \<open>datetime.now(timezone.utc)\<close> returns.
  The result is the list written to \<open>spot_termination_data.json\<close>.
\<close>

definition run_script :: "aws \<Rightarrow> time \<Rightarrow> py_float \<Rightarrow> enriched list io" where
  "run_script ec2 now py calls =
     (case get_account_id ec2 calls of
        (Inl e, calls1) \<Rightarrow> (Inl e, calls1)
      | (Inr account_id, calls1) \<Rightarrow>
          (case get_spot_instance_requests ec2 calls1 of
             (Inl e, calls2) \<Rightarrow> (Inl e, calls2)
           | (Inr spot_requests, calls2) \<Rightarrow>
               (let cutoff_time = now - timedelta_minutes (int LOOKBACK_MINUTES);
                    recent = recent_terminated cutoff_time spot_requests;
                    region_demand_score = length recent;
                    az_counter = az_counter_loop Map.empty recent
                in enrich_loop ec2 account_id py spot_requests region_demand_score
                     az_counter recent [] calls2)))"

subsection \<open>Measures used in the statements\<close>

text \<open>How often a call log asks for the zone mapping.\<close>

definition az_calls :: "api_call list \<Rightarrow> nat" where
  "az_calls calls = length (filter (\<lambda>c. c = DescribeAvailabilityZones region) calls)"

text \<open>
  The popularity window as the specification words it: same instance type, created in the
  closed window from sixty minutes before the target's creation to the target's creation.
\<close>

definition popularity_spec :: "string \<Rightarrow> time \<Rightarrow> spot_request list \<Rightarrow> nat" where
  "popularity_spec instance_type create_time batch =
     length (filter (\<lambda>req. rq_InstanceType req = instance_type
                          \<and> create_time - timedelta_minutes 60 \<le> rq_CreateTime req
                          \<and> rq_CreateTime req \<le> create_time) batch)"



subsection \<open>Exact arithmetic\<close>

text \<open>
  One instance of the float operations, used to evaluate the model on concrete inputs: every
  operation is exact, and rounding goes to the nearest multiple of \<open>10 ^ -ndigits\<close>, a
  tie to the even one. The interpreter's doubles agree with it up to their precision; the
  concrete inputs below are chosen away from ties.
\<close>

definition round_half_even :: "real \<Rightarrow> int" where
  "round_half_even x =
     (let f = \<lfloor>x\<rfloor>; d = x - of_int f
      in if d < 1 / 2 then f else if 1 / 2 < d then f + 1
         else if even f then f else f + 1)"

definition exact_round :: "real \<Rightarrow> nat \<Rightarrow> real" where
  "exact_round x ndigits = of_int (round_half_even (x * 10 ^ ndigits)) / 10 ^ ndigits"

definition exact_pow :: "real \<Rightarrow> real \<Rightarrow> real" where
  "exact_pow x y = (if y = 2 then x\<^sup>2 else if y = 1 / 2 then sqrt x else x powr y)"

definition exact_float :: py_float where
  "exact_float = \<lparr> float_sub = (\<lambda>x y. x - y), float_div = (\<lambda>x y. x / y), float_pow = exact_pow,
      float_sum = sum_list, float_round = exact_round,
      total_seconds = (\<lambda>us. real_of_int us / 1000000), float_repr = (\<lambda>x. ''?'') \<rparr>"

subsection \<open>A concrete batch\<close>

text \<open>
  Two requests of one instance type, created at minute 0 and at minute 10; the first ran
  for 90 minutes in zone \<open>ap-south-1a\<close>, the second for 30 minutes in zone
  \<open>ap-south-1b\<close> and has no instance id. A third request has no zone. The provider returns
  four price samples for the first zone, out of order, and none for another zone; its
  instance-type and offering calls fail.
\<close>

definition ev0 :: spot_request where
  "ev0 = \<lparr> rq_InstanceId = Some ''i-0a'', rq_SpotInstanceRequestId = ''sir-0a'',
      rq_InstanceType = ''m5.large'', rq_LaunchedAvailabilityZone = Some ''ap-south-1a'',
      rq_SpotPrice = 45 / 1000, rq_State = ''closed'',
      rq_StatusCode = ''instance-terminated-no-capacity'', rq_StatusMessage = ''no capacity'',
      rq_StatusUpdateTime = 5400000000, rq_CreateTime = 0, rq_Type = Some ''one-time'',
      rq_VpcId = None, rq_SubnetId = None \<rparr>"

definition ev10 :: spot_request where
  "ev10 = \<lparr> rq_InstanceId = None, rq_SpotInstanceRequestId = ''sir-0b'',
      rq_InstanceType = ''m5.large'', rq_LaunchedAvailabilityZone = Some ''ap-south-1b'',
      rq_SpotPrice = 45 / 1000, rq_State = ''closed'',
      rq_StatusCode = ''instance-terminated-no-capacity'', rq_StatusMessage = ''no capacity'',
      rq_StatusUpdateTime = 2400000000, rq_CreateTime = 600000000, rq_Type = None,
      rq_VpcId = None, rq_SubnetId = None \<rparr>"

definition ev_nozone :: spot_request where
  "ev_nozone = \<lparr> rq_InstanceId = None, rq_SpotInstanceRequestId = ''sir-0c'',
      rq_InstanceType = ''m5.large'', rq_LaunchedAvailabilityZone = None,
      rq_SpotPrice = 45 / 1000, rq_State = ''closed'',
      rq_StatusCode = ''instance-terminated-no-capacity'', rq_StatusMessage = ''no capacity'',
      rq_StatusUpdateTime = 3000000000, rq_CreateTime = 1200000000, rq_Type = None,
      rq_VpcId = None, rq_SubnetId = None \<rparr>"

definition samples :: "price_sample list" where
  "samples = [ \<lparr> Timestamp = 3600000000, ps_SpotPrice = 5 / 100 \<rparr>,
               \<lparr> Timestamp = 0, ps_SpotPrice = 3 / 100 \<rparr>,
               \<lparr> Timestamp = 2400000000, ps_SpotPrice = 3 / 100 \<rparr>,
               \<lparr> Timestamp = 1200000000, ps_SpotPrice = 3 / 100 \<rparr> ]"

definition ec2_ok :: aws where
  "ec2_ok = \<lparr> get_caller_identity = Inr ''123456789012'',
      describe_spot_instance_requests = Inr [ev0, ev10],
      describe_spot_price_history =
        (\<lambda>ty zone s e. if zone = ''ap-south-1a'' then Inr samples else Inr []),
      describe_instance_types = (\<lambda>ty. Inl (ClientError ''Throttling'')),
      describe_instance_type_offerings = (\<lambda>ty zone. Inl (ClientError ''Throttling'')),
      describe_availability_zones =
        (\<lambda>r. Inr [(''ap-south-1a'', ''aps1-az1''), (''ap-south-1b'', ''aps1-az2'')]) \<rparr>"

text \<open>The same provider, but the price history call, or the zone call, raises.\<close>

definition ec2_price_fails :: aws where
  "ec2_price_fails =
     ec2_ok \<lparr> describe_spot_price_history :=
                (\<lambda>ty zone s e. Inl (ClientError ''RequestLimitExceeded'')) \<rparr>"

definition ec2_zones_fail :: aws where
  "ec2_zones_fail =
     ec2_ok \<lparr> describe_availability_zones := (\<lambda>r. Inl (ClientError ''RequestLimitExceeded'')) \<rparr>"



text \<open>And with two samples whose prices have seven decimals.\<close>

definition samples_fine :: "price_sample list" where
  "samples_fine = [ \<lparr> Timestamp = 1200000000, ps_SpotPrice = 24 / 10000000 \<rparr>,
                    \<lparr> Timestamp = 0, ps_SpotPrice = 0 \<rparr> ]"

definition ec2_fine :: aws where
  "ec2_fine = ec2_ok \<lparr> describe_spot_price_history := (\<lambda>ty zone s e. Inr samples_fine) \<rparr>"

text \<open>The same provider with the request without a zone in its listing.\<close>

definition ec2_nozone :: aws where
  "ec2_nozone = ec2_ok \<lparr> describe_spot_instance_requests := Inr [ev0, ev_nozone] \<rparr>"

text \<open>The run starts at minute 120.\<close>

definition now0 :: time where
  "now0 = 7200000000"

section \<open>Properties\<close>

subsection \<open>What one enrichment returns\<close>

lemma enrich_Inr:
  assumes "fst (enrich_termination_data ec2 account_id py req all_requests rds azs calls) = Inr d"
  shows "UptimeMinutes d = uptime_minutes py (rq_StatusUpdateTime req) (rq_CreateTime req)"
    and "IsShortLived d = is_short_lived (UptimeMinutes d)"
    and "UptimeClass d = uptime_class (UptimeMinutes d)"
    and "InstancePopularity d = count_same_type (rq_InstanceType req) (rq_CreateTime req) all_requests"
    and "RegionDemandScore d = rds"
    and "AZInterruptionRate d = azs"
    and "AvailabilityZone d = rq_LaunchedAvailabilityZone req"
  using assms
  by (auto simp: enrich_termination_data_def Let_def enriched_core.defs enriched.defs
       split: prod.splits sum.splits)

lemma enrich_prices:
  assumes "fst (enrich_termination_data ec2 account_id py req all_requests rds azs calls) = Inr d"
  shows "\<exists>zone response.
           rq_LaunchedAvailabilityZone req = Some zone
         \<and> describe_spot_price_history ec2 (rq_InstanceType req) zone
            (rq_StatusUpdateTime req - timedelta_hours 6) (rq_StatusUpdateTime req) = Inr response
         \<and> SpotPriceAtLaunch d = spot_price_at_launch (rq_SpotPrice req) (map ps_SpotPrice (sort_key Timestamp response))
         \<and> SpotPriceAtTermination d = spot_price_at_termination (rq_SpotPrice req) (map ps_SpotPrice (sort_key Timestamp response))
         \<and> SpotPriceTrend d = float_round py (price_trend py (rq_SpotPrice req) (map ps_SpotPrice (sort_key Timestamp response))) 6
         \<and> PriceVariance d = price_variance py (rq_SpotPrice req) (map ps_SpotPrice (sort_key Timestamp response))"
  using assms
  by (auto simp: enrich_termination_data_def Let_def enriched_core.defs enriched.defs
        get_spot_price_history_def
       split: prod.splits sum.splits option.splits)

lemma enrich_raises_zones:
  assumes "describe_availability_zones ec2 region = Inl e"
  shows "fst (enrich_termination_data ec2 account_id py req all_requests rds azs calls) = Inl e"
  using assms
  by (auto simp: enrich_termination_data_def Let_def get_az_id_mapping_def 
       split: prod.splits sum.splits)

lemma enrich_raises_prices:
  assumes "describe_availability_zones ec2 region = Inr zones"
    and "rq_LaunchedAvailabilityZone req = Some zone"
    and "describe_spot_price_history ec2 (rq_InstanceType req) zone
            (rq_StatusUpdateTime req - timedelta_hours 6) (rq_StatusUpdateTime req) = Inl e"
  shows "fst (enrich_termination_data ec2 account_id py req all_requests rds azs calls) = Inl e"
  using assms
  by (auto simp: enrich_termination_data_def Let_def get_az_id_mapping_def get_spot_price_history_def
       split: prod.splits sum.splits)

text \<open>A request without a zone cannot be enriched: the price history call is refused.\<close>

lemma enrich_raises_nozone:
  assumes "rq_LaunchedAvailabilityZone req = None"
  shows "\<exists>e. fst (enrich_termination_data ec2 account_id py req all_requests rds azs calls) = Inl e"
  using assms
  by (auto simp: enrich_termination_data_def Let_def get_az_id_mapping_def get_spot_price_history_def
       split: prod.splits sum.splits)

lemma enrich_Inr_zone:
  assumes "fst (enrich_termination_data ec2 account_id py req all_requests rds azs calls) = Inr d"
  shows "rq_LaunchedAvailabilityZone req \<noteq> None" and "AvailabilityZone d \<noteq> None"
proof -
  show z: "rq_LaunchedAvailabilityZone req \<noteq> None"
  proof
    assume "rq_LaunchedAvailabilityZone req = None"
    from enrich_raises_nozone[OF this, of ec2 account_id py all_requests rds azs calls] assms
    show False by auto
  qed
  with enrich_Inr(7)[OF assms] show "AvailabilityZone d \<noteq> None" by simp
qed

lemma enrich_calls:
  assumes "enrich_termination_data ec2 account_id py req all_requests rds azs calls = (Inr d, calls')"
  shows "az_calls calls' = az_calls calls + 1"
  using assms
  by (auto simp: enrich_termination_data_def Let_def az_calls_def
        get_spot_price_history_def get_az_id_mapping_def get_network_performance_def
        get_cpu_credit_type_def get_pool_utilization_class_def
       split: prod.splits sum.splits option.splits)

lemma enrich_returns:
  assumes "describe_availability_zones ec2 region = Inr zones"
    and "rq_LaunchedAvailabilityZone req = Some zone"
    and "describe_spot_price_history ec2 (rq_InstanceType req) zone
            (rq_StatusUpdateTime req - timedelta_hours 6) (rq_StatusUpdateTime req) = Inr response"
  shows "\<exists>d c1. enrich_termination_data ec2 account_id py req all_requests rds azs calls = (Inr d, c1)"
  using assms
  by (auto simp: enrich_termination_data_def Let_def 
        get_spot_price_history_def get_az_id_mapping_def 
       split: prod.splits sum.splits)

subsection \<open>The counting loop and the enrichment loop\<close>

lemma az_counter_loop_get:
  "dict_get (az_counter_loop m reqs) z 0 =
     dict_get m z 0 + length (filter (\<lambda>r. rq_LaunchedAvailabilityZone r = z) reqs)"
  by (induction reqs arbitrary: m) (auto simp: dict_get_def Let_def)

lemma az_counter_loop_dom:
  "dom (az_counter_loop m reqs) = dom m \<union> rq_LaunchedAvailabilityZone ` set reqs"
  by (induction reqs arbitrary: m) (auto simp: Let_def)

lemma enrich_loop_Inr:
  assumes "enrich_termination_data ec2 account_id py req spot_requests rds
        (dict_get azc (rq_LaunchedAvailabilityZone req) 0) calls = (Inr d, c1)"
  shows "enrich_loop ec2 account_id py spot_requests rds azc (req # reqs) acc calls
       = enrich_loop ec2 account_id py spot_requests rds azc reqs (acc @ [d]) c1"
  using assms by (simp add: Let_def)

lemma enrich_loop_Inl:
  assumes "enrich_termination_data ec2 account_id py req spot_requests rds
        (dict_get azc (rq_LaunchedAvailabilityZone req) 0) calls = (Inl e, c1)"
  shows "enrich_loop ec2 account_id py spot_requests rds azc (req # reqs) acc calls
       = (Inl e, c1)"
  using assms by (simp add: Let_def)

lemma enrich_loop_all:
  assumes "fst (enrich_loop ec2 account_id py spot_requests rds azc reqs acc calls) = Inr out"
    and "\<forall>d\<in>set acc. P d"
    and "\<forall>req\<in>set reqs. \<forall>calls d.
           fst (enrich_termination_data ec2 account_id py req spot_requests rds
                  (dict_get azc (rq_LaunchedAvailabilityZone req) 0) calls) = Inr d \<longrightarrow> P d"
  shows "\<forall>d\<in>set out. P d"
  using assms
proof (induction reqs arbitrary: acc calls)
  case Nil
  then show ?case by simp
next
  case (Cons req reqs)
  obtain r c1 where e: "enrich_termination_data ec2 account_id py req spot_requests rds
        (dict_get azc (rq_LaunchedAvailabilityZone req) 0) calls = (r, c1)"
    by fastforce
  show ?case
  proof (cases r)
    case (Inl x)
    from e Inl have "enrich_loop ec2 account_id py spot_requests rds azc (req # reqs) acc calls
       = (Inl x, c1)" by (simp only: enrich_loop_Inl)
    with Cons.prems(1) show ?thesis by simp
  next
    case (Inr d)
    from e Inr have e': "enrich_termination_data ec2 account_id py req spot_requests rds
        (dict_get azc (rq_LaunchedAvailabilityZone req) 0) calls = (Inr d, c1)" by simp
    then have "fst (enrich_termination_data ec2 account_id py req spot_requests rds
        (dict_get azc (rq_LaunchedAvailabilityZone req) 0) calls) = Inr d" by simp
    with Cons.prems(3) have Pd: "P d" by (meson list.set_intros(1))
    from Cons.prems(1) have 1: "fst (enrich_loop ec2 account_id py spot_requests rds azc reqs (acc @ [d]) c1) = Inr out"
      by (simp only: enrich_loop_Inr[OF e'])
    have 2: "\<forall>x\<in>set (acc @ [d]). P x" using Cons.prems(2) Pd by simp
    have 3: "\<forall>req\<in>set reqs. \<forall>calls d.
           fst (enrich_termination_data ec2 account_id py req spot_requests rds
                  (dict_get azc (rq_LaunchedAvailabilityZone req) 0) calls) = Inr d \<longrightarrow> P d"
      using Cons.prems(3) by (meson list.set_intros(2))
    from Cons.IH[OF 1 2 3] show ?thesis .
  qed
qed



lemma enrich_loop_calls:
  assumes "enrich_loop ec2 account_id py spot_requests rds azc reqs acc calls = (Inr out, calls')"
  shows "az_calls calls' = az_calls calls + length reqs \<and> length out = length acc + length reqs"
  using assms
proof (induction reqs arbitrary: acc calls)
  case Nil
  then show ?case by simp
next
  case (Cons req reqs)
  obtain r c1 where e: "enrich_termination_data ec2 account_id py req spot_requests rds
        (dict_get azc (rq_LaunchedAvailabilityZone req) 0) calls = (r, c1)"
    by fastforce
  show ?case
  proof (cases r)
    case (Inl x)
    from e Inl have "enrich_loop ec2 account_id py spot_requests rds azc (req # reqs) acc calls
       = (Inl x, c1)" by (simp only: enrich_loop_Inl)
    with Cons.prems show ?thesis by simp
  next
    case (Inr d)
    from e Inr have e': "enrich_termination_data ec2 account_id py req spot_requests rds
        (dict_get azc (rq_LaunchedAvailabilityZone req) 0) calls = (Inr d, c1)" by simp
    have c: "az_calls c1 = az_calls calls + 1" by (rule enrich_calls[OF e'])
    from Cons.prems
    have "enrich_loop ec2 account_id py spot_requests rds azc reqs (acc @ [d]) c1 = (Inr out, calls')"
      by (simp only: enrich_loop_Inr[OF e'])
    from Cons.IH[OF this] c show ?thesis by simp
  qed
qed

lemma enrich_loop_returns:
  assumes "describe_availability_zones ec2 region = Inr zones"
    and "\<forall>req\<in>set reqs. \<exists>zone response. rq_LaunchedAvailabilityZone req = Some zone
            \<and> describe_spot_price_history ec2 (rq_InstanceType req) zone
            (rq_StatusUpdateTime req - timedelta_hours 6) (rq_StatusUpdateTime req) = Inr response"
  shows "\<exists>out c. enrich_loop ec2 account_id py spot_requests rds azc reqs acc calls = (Inr out, c)"
  using assms
proof (induction reqs arbitrary: acc calls)
  case Nil
  then show ?case by simp
next
  case (Cons req reqs)
  then obtain zone response where z: "rq_LaunchedAvailabilityZone req = Some zone"
    and r: "describe_spot_price_history ec2 (rq_InstanceType req) zone
            (rq_StatusUpdateTime req - timedelta_hours 6) (rq_StatusUpdateTime req) = Inr response"
    by (meson list.set_intros(1))
  from enrich_returns[OF Cons.prems(1) z r]
  obtain d c1 where e: "enrich_termination_data ec2 account_id py req spot_requests rds
        (dict_get azc (rq_LaunchedAvailabilityZone req) 0) calls = (Inr d, c1)" by blast
  have "\<forall>req\<in>set reqs. \<exists>zone response. rq_LaunchedAvailabilityZone req = Some zone
            \<and> describe_spot_price_history ec2 (rq_InstanceType req) zone
            (rq_StatusUpdateTime req - timedelta_hours 6) (rq_StatusUpdateTime req) = Inr response"
    using Cons.prems(2) by (meson list.set_intros(2))
  from Cons.IH[OF Cons.prems(1) this, of "acc @ [d]" c1]
  show ?case by (simp only: enrich_loop_Inr[OF e])
qed

lemma enrich_loop_raises:
  assumes "req \<in> set reqs"
    and "\<forall>calls. \<exists>e. fst (enrich_termination_data ec2 account_id py req spot_requests rds
        (dict_get azc (rq_LaunchedAvailabilityZone req) 0) calls) = Inl e"
  shows "\<exists>e. fst (enrich_loop ec2 account_id py spot_requests rds azc reqs acc calls) = Inl e"
  using assms
proof (induction reqs arbitrary: acc calls)
  case Nil
  then show ?case by simp
next
  case (Cons r reqs)
  obtain res c1 where e: "enrich_termination_data ec2 account_id py r spot_requests rds
        (dict_get azc (rq_LaunchedAvailabilityZone r) 0) calls = (res, c1)"
    by fastforce
  show ?case
  proof (cases res)
    case (Inl x)
    with e show ?thesis by (simp only: enrich_loop_Inl) simp
  next
    case (Inr d)
    with e have e': "enrich_termination_data ec2 account_id py r spot_requests rds
        (dict_get azc (rq_LaunchedAvailabilityZone r) 0) calls = (Inr d, c1)" by simp
    have "req \<noteq> r"
    proof
      assume "req = r"
      with Cons.prems(2) obtain x where "fst (enrich_termination_data ec2 account_id py r spot_requests rds
        (dict_get azc (rq_LaunchedAvailabilityZone r) 0) calls) = Inl x" by blast
      with e' show False by simp
    qed
    with Cons.prems(1) have "req \<in> set reqs" by simp
    from Cons.IH[OF this Cons.prems(2), of "acc @ [d]" c1]
    show ?thesis by (simp only: enrich_loop_Inr[OF e'])
  qed
qed

lemma run_script_Inr:
  assumes "run_script ec2 now py calls = (Inr out, calls')"
  shows "\<exists>account_id spot_requests.
           get_caller_identity ec2 = Inr account_id
         \<and> describe_spot_instance_requests ec2 = Inr spot_requests
         \<and> enrich_loop ec2 account_id py spot_requests
              (length (recent_terminated (now - timedelta_minutes (int LOOKBACK_MINUTES)) spot_requests))
              (az_counter_loop Map.empty
                 (recent_terminated (now - timedelta_minutes (int LOOKBACK_MINUTES)) spot_requests))
              (recent_terminated (now - timedelta_minutes (int LOOKBACK_MINUTES)) spot_requests) []
              (calls @ [GetCallerIdentity, DescribeSpotInstanceRequests]) = (Inr out, calls')"
  using assms
  by (auto simp: run_script_def get_account_id_def get_spot_instance_requests_def Let_def
       split: sum.splits)

lemma run_script_eq:
  assumes "get_caller_identity ec2 = Inr account_id"
    and "describe_spot_instance_requests ec2 = Inr spot_requests"
  shows "run_script ec2 now py calls =
           enrich_loop ec2 account_id py spot_requests
              (length (recent_terminated (now - timedelta_minutes (int LOOKBACK_MINUTES)) spot_requests))
              (az_counter_loop Map.empty
                 (recent_terminated (now - timedelta_minutes (int LOOKBACK_MINUTES)) spot_requests))
              (recent_terminated (now - timedelta_minutes (int LOOKBACK_MINUTES)) spot_requests) []
              (calls @ [GetCallerIdentity, DescribeSpotInstanceRequests])"
  using assms
  by (simp add: run_script_def get_account_id_def get_spot_instance_requests_def Let_def)

subsection \<open>Exact arithmetic\<close>

lemma exact_float_simps:
  "float_sub exact_float x y = x - y"
  "float_div exact_float x y = x / y"
  "float_pow exact_float x 2 = x\<^sup>2"
  "float_pow exact_float x (1 / 2) = sqrt x"
  "float_sum exact_float xs = sum_list xs"
  "float_round exact_float x n = exact_round x n"
  "total_seconds exact_float us = real_of_int us / 1000000"
  "float_repr exact_float x = ''?''"
  by (simp_all add: exact_float_def exact_pow_def)


lemma round_half_even_close: "\<bar>of_int (round_half_even y) - y\<bar> \<le> 1 / 2"
  unfolding round_half_even_def Let_def
  by (auto simp: abs_le_iff)

lemma exact_round_close: "\<bar>exact_round x n - x\<bar> \<le> 1 / (2 * 10 ^ n)"
proof -
  have "\<bar>exact_round x n - x\<bar> = \<bar>of_int (round_half_even (x * 10 ^ n)) - x * 10 ^ n\<bar> / 10 ^ n"
    by (simp add: exact_round_def field_simps abs_divide) 
  also have "\<dots> \<le> (1 / 2) / 10 ^ n"
    by (rule divide_right_mono[OF round_half_even_close]) simp
  finally show ?thesis by simp
qed

lemma round_half_even_of_int: "round_half_even (of_int k) = k"
  by (simp add: round_half_even_def)

lemma exact_round_exact: "exact_round (of_int k / 10 ^ n) n = of_int k / 10 ^ n"
  by (simp add: exact_round_def round_half_even_of_int)

lemma exact_round_exact_diff:
  "exact_round (of_int a / 10 ^ n - of_int b / 10 ^ n) n = of_int a / 10 ^ n - of_int b / 10 ^ n"
proof -
  have "of_int a / 10 ^ n - of_int b / 10 ^ n = (of_int (a - b) :: real) / 10 ^ n"
    by (simp add: diff_divide_distrib)
  then show ?thesis by (simp only: exact_round_exact)
qed

subsection \<open>The concrete batch\<close>

lemma recent_example:
  "recent_terminated (now0 - timedelta_minutes (int LOOKBACK_MINUTES)) [ev0, ev10] = [ev0, ev10]"
  by (simp add: recent_terminated_def now0_def timedelta_minutes_def LOOKBACK_MINUTES_def
        ev0_def ev10_def sublist_code)

lemma recent_nozone:
  "recent_terminated (now0 - timedelta_minutes (int LOOKBACK_MINUTES)) [ev0, ev_nozone]
     = [ev0, ev_nozone]"
  by (simp add: recent_terminated_def now0_def timedelta_minutes_def LOOKBACK_MINUTES_def
        ev0_def ev_nozone_def sublist_code)

lemma sorted_samples:
  "sort_key Timestamp samples = 
             [ \<lparr> Timestamp = 0, ps_SpotPrice = 3 / 100 \<rparr>,
               \<lparr> Timestamp = 1200000000, ps_SpotPrice = 3 / 100 \<rparr>,
               \<lparr> Timestamp = 2400000000, ps_SpotPrice = 3 / 100 \<rparr>,
               \<lparr> Timestamp = 3600000000, ps_SpotPrice = 5 / 100 \<rparr>]"
  by (simp add: samples_def)

subsection \<open>Helpers for the claims\<close>

lemma example_prices:
  "describe_spot_price_history ec2_ok (rq_InstanceType ev0) ''ap-south-1a''
     (rq_StatusUpdateTime ev0 - timedelta_hours 6) (rq_StatusUpdateTime ev0) = Inr samples"
  "describe_spot_price_history ec2_ok (rq_InstanceType ev10) ''ap-south-1b''
     (rq_StatusUpdateTime ev10 - timedelta_hours 6) (rq_StatusUpdateTime ev10) = Inr []"
  by (simp_all add: ec2_ok_def)

lemma example_zones:
  "rq_LaunchedAvailabilityZone ev0 = Some ''ap-south-1a''"
  "rq_LaunchedAvailabilityZone ev10 = Some ''ap-south-1b''"
  "rq_LaunchedAvailabilityZone ev_nozone = None"
  "describe_availability_zones ec2_ok region
     = Inr [(''ap-south-1a'', ''aps1-az1''), (''ap-south-1b'', ''aps1-az2'')]"
  by (simp_all add: ev0_def ev10_def ev_nozone_def ec2_ok_def)

lemma enrich_example_returns:
  "req \<in> {ev0, ev10} \<Longrightarrow>
   \<exists>d c. enrich_termination_data ec2_ok account_id py req all_requests rds azs calls = (Inr d, c)"
  using enrich_returns[OF example_zones(4) example_zones(1) example_prices(1)]
        enrich_returns[OF example_zones(4) example_zones(2) example_prices(2)]
  by blast

lemma count_same_type_length:
  "count_same_type instance_type create_time all_requests =
     length (filter (\<lambda>req. rq_InstanceType req = instance_type
                          \<and> create_time - timedelta_hours 1 \<le> rq_CreateTime req) all_requests)"
  by (induction all_requests) (simp_all add: count_same_type_def Let_def)

lemma filter_window_split:
  "length (filter (\<lambda>req. rq_InstanceType req = ty \<and> c - timedelta_hours 1 \<le> rq_CreateTime req) batch)
     = popularity_spec ty c batch
       + length (filter (\<lambda>req. rq_InstanceType req = ty \<and> c < rq_CreateTime req) batch)"
  by (induction batch) (auto simp: popularity_spec_def timedelta_hours_def timedelta_minutes_def)

lemma dict_get_empty: "dict_get Map.empty k d = d"
  by (simp add: dict_get_def)

lemma zone_count_bounds:
  assumes "req \<in> set recent"
  shows "1 \<le> dict_get (az_counter_loop Map.empty recent) (rq_LaunchedAvailabilityZone req) 0"
    and "dict_get (az_counter_loop Map.empty recent) (rq_LaunchedAvailabilityZone req) 0 \<le> length recent"
proof -
  have "req \<in> set (filter (\<lambda>r. rq_LaunchedAvailabilityZone r = rq_LaunchedAvailabilityZone req) recent)"
    using assms by simp
  then have "0 < length (filter (\<lambda>r. rq_LaunchedAvailabilityZone r = rq_LaunchedAvailabilityZone req) recent)"
    by (simp only: length_pos_if_in_set)
  then show "1 \<le> dict_get (az_counter_loop Map.empty recent) (rq_LaunchedAvailabilityZone req) 0"
    by (simp add: az_counter_loop_get dict_get_empty Suc_le_eq)
  show "dict_get (az_counter_loop Map.empty recent) (rq_LaunchedAvailabilityZone req) 0 \<le> length recent"
    by (simp add: az_counter_loop_get dict_get_empty)
qed

lemma az_calls_append: "az_calls (xs @ ys) = az_calls xs + az_calls ys"
  by (simp add: az_calls_def)

lemma run_script_calls:
  assumes "run_script ec2 now py calls = (Inr out, calls')"
  shows "az_calls calls' = az_calls calls + length out"
proof -
  from run_script_Inr[OF assms] obtain account_id spot_requests where
    l: "enrich_loop ec2 account_id py spot_requests
              (length (recent_terminated (now - timedelta_minutes (int LOOKBACK_MINUTES)) spot_requests))
              (az_counter_loop Map.empty
                 (recent_terminated (now - timedelta_minutes (int LOOKBACK_MINUTES)) spot_requests))
              (recent_terminated (now - timedelta_minutes (int LOOKBACK_MINUTES)) spot_requests) []
              (calls @ [GetCallerIdentity, DescribeSpotInstanceRequests]) = (Inr out, calls')"
    by blast
  have "az_calls (calls @ [GetCallerIdentity, DescribeSpotInstanceRequests]) = az_calls calls"
    by (simp add: az_calls_def)
  with enrich_loop_calls[OF l] show ?thesis by simp
qed

lemma run_script_raises:
  assumes "get_caller_identity ec2 = Inr account_id"
    and "describe_spot_instance_requests ec2 = Inr spot_requests"
    and "recent_terminated (now - timedelta_minutes (int LOOKBACK_MINUTES)) spot_requests = req # reqs"
    and "\<forall>rds azs calls. fst (enrich_termination_data ec2 account_id py req spot_requests rds azs calls) = Inl e"
  shows "fst (run_script ec2 now py calls) = Inl e"
proof -
  let ?c = "calls @ [GetCallerIdentity, DescribeSpotInstanceRequests]"
  let ?azc = "az_counter_loop Map.empty (req # reqs)"
  obtain r c1 where e: "enrich_termination_data ec2 account_id py req spot_requests
        (length (req # reqs)) (dict_get ?azc (rq_LaunchedAvailabilityZone req) 0) ?c = (r, c1)"
    by fastforce
  with assms(4) have "r = Inl e" by (metis fst_conv)
  with e have "enrich_loop ec2 account_id py spot_requests (length (req # reqs)) ?azc
       (req # reqs) [] ?c = (Inl e, c1)"
    by (simp only: enrich_loop_Inl)
  then show ?thesis
    by (simp only: run_script_eq[OF assms(1,2)] assms(3) fst_conv)
qed


lemma run_example_returns:
  "\<exists>out c. run_script ec2_ok now0 py calls = (Inr out, c)"
proof -
  have a: "get_caller_identity ec2_ok = Inr ''123456789012''"
    and b: "describe_spot_instance_requests ec2_ok = Inr [ev0, ev10]"
    by (simp_all add: ec2_ok_def)
  have p: "\<forall>req\<in>set [ev0, ev10]. \<exists>zone response.
         rq_LaunchedAvailabilityZone req = Some zone
         \<and> describe_spot_price_history ec2_ok (rq_InstanceType req) zone
           (rq_StatusUpdateTime req - timedelta_hours 6) (rq_StatusUpdateTime req) = Inr response"
    using example_zones(1,2) example_prices by auto
  show ?thesis
    unfolding run_script_eq[OF a b] recent_example
    by (rule enrich_loop_returns[OF example_zones(4) p])
qed

lemma run_example_two:
  assumes "run_script ec2_ok now0 py calls = (Inr out, c)"
  shows "length out = 2"
proof -
  have a: "get_caller_identity ec2_ok = Inr ''123456789012''"
    and b: "describe_spot_instance_requests ec2_ok = Inr [ev0, ev10]"
    by (simp_all add: ec2_ok_def)
  from assms have "enrich_loop ec2_ok ''123456789012'' py [ev0, ev10] (length [ev0, ev10])
         (az_counter_loop Map.empty [ev0, ev10]) [ev0, ev10] []
         (calls @ [GetCallerIdentity, DescribeSpotInstanceRequests]) = (Inr out, c)"
    by (simp only: run_script_eq[OF a b] recent_example)
  from enrich_loop_calls[OF this] show ?thesis by simp
qed

lemma sorted_key_hd_last:
  assumes "sorted (map f xs)" and "x \<in> set xs"
  shows "f (hd xs) \<le> f x \<and> f x \<le> f (last xs)"
proof -
  from assms(2) obtain i where i: "i < length xs" "xs ! i = x"
    by (auto simp: in_set_conv_nth)
  then have ne: "xs \<noteq> []" by auto
  have "map f xs ! 0 \<le> map f xs ! i"
    using assms(1) i(1) by (intro sorted_nth_mono) auto
  moreover have "map f xs ! i \<le> map f xs ! (length xs - 1)"
    using assms(1) i(1) by (intro sorted_nth_mono) auto
  ultimately show ?thesis
    using i ne by (simp add: hd_conv_nth last_conv_nth)
qed

lemma sort_key_order_independent:
  assumes "mset response' = mset response" and "distinct (map Timestamp response)"
  shows "sort_key Timestamp response' = sort_key Timestamp response"
proof (rule sort_key_inj_key_eq)
  show "mset response' = mset (sort_key Timestamp response)" using assms(1) by simp
  have "set response' = set response" using assms(1) by (rule mset_eq_setD)
  with assms(2) show "inj_on Timestamp (set response')" by (simp add: distinct_map)
  show "sorted (map Timestamp (sort_key Timestamp response))" by simp
qed








lemma enrich_fine_returns:
  "\<exists>d c. enrich_termination_data ec2_fine account_id py ev0 all_requests rds azs calls = (Inr d, c)"
  by (rule enrich_returns[where zones = "[(''ap-south-1a'', ''aps1-az1''), (''ap-south-1b'', ''aps1-az2'')]"
        and zone = "''ap-south-1a''" and response = samples_fine])
     (simp_all add: ec2_fine_def ec2_ok_def ev0_def)

lemma sorted_samples_fine:
  "map ps_SpotPrice (sort_key Timestamp samples_fine) = [0, 24 / 10000000]"
  by (simp add: samples_fine_def)








subsection \<open>Requests without a zone\<close>

text \<open>
  A run whose filtered set holds a request without a zone returns no record, and so every
  record that a run returns has a zone.
\<close>

lemma run_aborts_without_zone:
  assumes "describe_spot_instance_requests ec2 = Inr spot_requests"
    and "req \<in> set (recent_terminated (now - timedelta_minutes (int LOOKBACK_MINUTES)) spot_requests)"
    and "rq_LaunchedAvailabilityZone req = None"
  shows "\<exists>e. fst (run_script ec2 now py calls) = Inl e"
proof (cases "get_caller_identity ec2")
  case (Inl e)
  then show ?thesis by (simp add: run_script_def get_account_id_def)
next
  case (Inr account_id)
  have "\<forall>calls. \<exists>e. fst (enrich_termination_data ec2 account_id py req spot_requests
          (length (recent_terminated (now - timedelta_minutes (int LOOKBACK_MINUTES)) spot_requests))
          (dict_get (az_counter_loop Map.empty
             (recent_terminated (now - timedelta_minutes (int LOOKBACK_MINUTES)) spot_requests))
             (rq_LaunchedAvailabilityZone req) 0) calls) = Inl e"
    using enrich_raises_nozone[OF assms(3)] by blast
  from enrich_loop_raises[OF assms(2) this] show ?thesis
    by (simp only: run_script_eq[OF Inr assms(1)])
qed

lemma returned_records_have_zone:
  assumes "fst (run_script ec2 now py calls) = Inr out"
  shows "\<forall>d\<in>set out. AvailabilityZone d \<noteq> None"
proof -
  obtain c where "run_script ec2 now py calls = (Inr out, c)"
    using assms by (metis prod.collapse)
  from run_script_Inr[OF this] obtain account_id spot_requests where
    l: "enrich_loop ec2 account_id py spot_requests
              (length (recent_terminated (now - timedelta_minutes (int LOOKBACK_MINUTES)) spot_requests))
              (az_counter_loop Map.empty
                 (recent_terminated (now - timedelta_minutes (int LOOKBACK_MINUTES)) spot_requests))
              (recent_terminated (now - timedelta_minutes (int LOOKBACK_MINUTES)) spot_requests) []
              (calls @ [GetCallerIdentity, DescribeSpotInstanceRequests]) = (Inr out, c)"
    by blast
  then have l': "fst (enrich_loop ec2 account_id py spot_requests
              (length (recent_terminated (now - timedelta_minutes (int LOOKBACK_MINUTES)) spot_requests))
              (az_counter_loop Map.empty
                 (recent_terminated (now - timedelta_minutes (int LOOKBACK_MINUTES)) spot_requests))
              (recent_terminated (now - timedelta_minutes (int LOOKBACK_MINUTES)) spot_requests) []
              (calls @ [GetCallerIdentity, DescribeSpotInstanceRequests])) = Inr out"
    by simp
  have e: "\<forall>d\<in>set ([]::enriched list). AvailabilityZone d \<noteq> None" by simp
  show ?thesis
    by (rule enrich_loop_all[where P = "\<lambda>d. AvailabilityZone d \<noteq> None", OF l' e])
       (use enrich_Inr_zone(2) in blast)
qed

subsection \<open>The order of the records, the prices of the first request, the narrative\<close>

lemma enrich_loop_zones:
  assumes "enrich_loop ec2 account_id py spot_requests rds azc reqs acc calls = (Inr out, calls')"
  shows "map AvailabilityZone out = map AvailabilityZone acc @ map rq_LaunchedAvailabilityZone reqs"
  using assms
proof (induction reqs arbitrary: acc calls)
  case Nil
  then show ?case by simp
next
  case (Cons req reqs)
  obtain r c1 where e: "enrich_termination_data ec2 account_id py req spot_requests rds
        (dict_get azc (rq_LaunchedAvailabilityZone req) 0) calls = (r, c1)"
    by fastforce
  show ?case
  proof (cases r)
    case (Inl x)
    from e Inl have "enrich_loop ec2 account_id py spot_requests rds azc (req # reqs) acc calls
       = (Inl x, c1)" by (simp only: enrich_loop_Inl)
    with Cons.prems show ?thesis by simp
  next
    case (Inr d)
    from e Inr have e': "enrich_termination_data ec2 account_id py req spot_requests rds
        (dict_get azc (rq_LaunchedAvailabilityZone req) 0) calls = (Inr d, c1)" by simp
    then have "fst (enrich_termination_data ec2 account_id py req spot_requests rds
        (dict_get azc (rq_LaunchedAvailabilityZone req) 0) calls) = Inr d" by simp
    then have z: "AvailabilityZone d = rq_LaunchedAvailabilityZone req" by (rule enrich_Inr(7))
    from Cons.prems
    have "enrich_loop ec2 account_id py spot_requests rds azc reqs (acc @ [d]) c1 = (Inr out, calls')"
      by (simp only: enrich_loop_Inr[OF e'])
    from Cons.IH[OF this] z show ?thesis by simp
  qed
qed

lemma run_example_zones:
  assumes "run_script ec2_ok now0 py calls = (Inr [d0, d1], c)"
  shows "AvailabilityZone d0 = Some ''ap-south-1a''" and "AvailabilityZone d1 = Some ''ap-south-1b''"
proof -
  have a: "get_caller_identity ec2_ok = Inr ''123456789012''"
    and b: "describe_spot_instance_requests ec2_ok = Inr [ev0, ev10]"
    by (simp_all add: ec2_ok_def)
  from assms have "enrich_loop ec2_ok ''123456789012'' py [ev0, ev10] (length [ev0, ev10])
         (az_counter_loop Map.empty [ev0, ev10]) [ev0, ev10] []
         (calls @ [GetCallerIdentity, DescribeSpotInstanceRequests]) = (Inr [d0, d1], c)"
    by (simp only: run_script_eq[OF a b] recent_example)
  from enrich_loop_zones[OF this]
  show "AvailabilityZone d0 = Some ''ap-south-1a''" and "AvailabilityZone d1 = Some ''ap-south-1b''"
    by (simp_all add: example_zones)
qed

lemma enrich_example_prices:
  assumes "fst (enrich_termination_data ec2 account_id py ev0 all_requests rds azs calls) = Inr d"
    and "describe_spot_price_history ec2 (rq_InstanceType ev0) ''ap-south-1a''
           (rq_StatusUpdateTime ev0 - timedelta_hours 6) (rq_StatusUpdateTime ev0) = Inr response"
  shows "SpotPriceAtLaunch d
           = spot_price_at_launch (rq_SpotPrice ev0) (map ps_SpotPrice (sort_key Timestamp response))"
    and "SpotPriceAtTermination d
           = spot_price_at_termination (rq_SpotPrice ev0) (map ps_SpotPrice (sort_key Timestamp response))"
    and "PriceVariance d
           = price_variance py (rq_SpotPrice ev0) (map ps_SpotPrice (sort_key Timestamp response))"
  using enrich_prices[OF assms(1)] assms(2) example_zones(1) by auto



section \<open>The claims\<close>

text \<open>
  C1. Of two requests of one instance type created at minute 0 and at minute 10, the request
  of minute 0 is enriched with the popularity 2, although the closed sixty-minute window
  that ends at its creation holds one request, itself: the request created ten minutes
  later is counted as well.
\<close>

theorem popularity_counts_later_requests:
  "\<not> isl (fst (enrich_termination_data ec2_ok ''123456789012'' exact_float ev0 [ev0, ev10] 2 1 []))
   \<and> InstancePopularity
        (projr (fst (enrich_termination_data ec2_ok ''123456789012'' exact_float ev0 [ev0, ev10] 2 1 [])))
       = 2
   \<and> popularity_spec (rq_InstanceType ev0) (rq_CreateTime ev0) [ev0, ev10] = 1"
proof -
  obtain d c where "enrich_termination_data ec2_ok ''123456789012'' exact_float ev0 [ev0, ev10] 2 1 [] = (Inr d, c)"
    using enrich_example_returns[of ev0] by blast
  then have h: "fst (enrich_termination_data ec2_ok ''123456789012'' exact_float ev0 [ev0, ev10] 2 1 []) = Inr d"
    by simp
  have "InstancePopularity d = 2"
    using enrich_Inr(4)[OF h]
    by (simp add: count_same_type_def ev0_def ev10_def timedelta_hours_def)
  moreover have "popularity_spec (rq_InstanceType ev0) (rq_CreateTime ev0) [ev0, ev10] = 1"
    by (simp add: popularity_spec_def ev0_def ev10_def timedelta_minutes_def)
  ultimately show ?thesis using h by simp
qed

text \<open>
  In general the count has a lower end only: it is the number of requests of the listing
  with the event's instance type created no earlier than sixty minutes before the event,
  that is the count over the closed window plus the number of same-type requests created
  after the event.
\<close>

lemma popularity_lower_bound_only:
  assumes "fst (enrich_termination_data ec2 account_id py req all_requests rds azs calls) = Inr d"
  shows "InstancePopularity d =
           length (filter (\<lambda>r. rq_InstanceType r = rq_InstanceType req
                              \<and> rq_CreateTime req - timedelta_minutes 60 \<le> rq_CreateTime r) all_requests)
       \<and> InstancePopularity d =
           popularity_spec (rq_InstanceType req) (rq_CreateTime req) all_requests
           + length (filter (\<lambda>r. rq_InstanceType r = rq_InstanceType req
                                \<and> rq_CreateTime req < rq_CreateTime r) all_requests)
       \<and> (req \<in> set all_requests \<longrightarrow> 1 \<le> InstancePopularity d)"
proof -
  have p: "InstancePopularity d =
      length (filter (\<lambda>r. rq_InstanceType r = rq_InstanceType req
                         \<and> rq_CreateTime req - timedelta_hours 1 \<le> rq_CreateTime r) all_requests)"
    using enrich_Inr(4)[OF assms] by (simp add: count_same_type_length)
  have h: "timedelta_hours 1 = timedelta_minutes 60"
    by (simp add: timedelta_hours_def timedelta_minutes_def)
  have p1: "InstancePopularity d =
      length (filter (\<lambda>r. rq_InstanceType r = rq_InstanceType req
                         \<and> rq_CreateTime req - timedelta_minutes 60 \<le> rq_CreateTime r) all_requests)"
    using p by (simp only: h)
  have p2: "InstancePopularity d =
           popularity_spec (rq_InstanceType req) (rq_CreateTime req) all_requests
           + length (filter (\<lambda>r. rq_InstanceType r = rq_InstanceType req
                                \<and> rq_CreateTime req < rq_CreateTime r) all_requests)"
    using p by (simp only: filter_window_split)
  have p3: "1 \<le> InstancePopularity d" if "req \<in> set all_requests"
  proof -
    have "req \<in> set (filter (\<lambda>r. rq_InstanceType r = rq_InstanceType req
                         \<and> rq_CreateTime req - timedelta_hours 1 \<le> rq_CreateTime r) all_requests)"
      using that by (simp add: timedelta_hours_def)
    then have "0 < length (filter (\<lambda>r. rq_InstanceType r = rq_InstanceType req
                         \<and> rq_CreateTime req - timedelta_hours 1 \<le> rq_CreateTime r) all_requests)"
      by (simp only: length_pos_if_in_set)
    with p show ?thesis by (simp add: Suc_le_eq)
  qed
  from p1 p2 p3 show ?thesis by blast
qed

text \<open>
  C2 (amended). The zone counter has one bucket for every value that the zone field takes in
  the filtered set, the absent zone included: for every key, absent or present, looking it
  up with default zero gives the number of filtered requests with that zone value, and a
  key has no bucket exactly when no filtered request carries it. A filtered request
  without a zone is therefore counted in the bucket of the absent zone, as it is in the
  region count. Every record that a run returns carries the size of the filtered set as its
  region count and the count of its own zone as its zone count.
\<close>

theorem zone_buckets_include_absent_zone:
  "(\<forall>z. dict_get (az_counter_loop Map.empty
                    (recent_terminated (now - timedelta_minutes (int LOOKBACK_MINUTES)) spot_requests)) z 0
              = length (filter (\<lambda>r. rq_LaunchedAvailabilityZone r = z)
                    (recent_terminated (now - timedelta_minutes (int LOOKBACK_MINUTES)) spot_requests)))
   \<and> (\<forall>z. (az_counter_loop Map.empty
                    (recent_terminated (now - timedelta_minutes (int LOOKBACK_MINUTES)) spot_requests) z = None)
              = (z \<notin> rq_LaunchedAvailabilityZone `
                    set (recent_terminated (now - timedelta_minutes (int LOOKBACK_MINUTES)) spot_requests)))
   \<and> (\<forall>req\<in>set (recent_terminated (now - timedelta_minutes (int LOOKBACK_MINUTES)) spot_requests).
          rq_LaunchedAvailabilityZone req = None \<longrightarrow>
            1 \<le> dict_get (az_counter_loop Map.empty
                    (recent_terminated (now - timedelta_minutes (int LOOKBACK_MINUTES)) spot_requests)) None 0)
   \<and> (describe_spot_instance_requests ec2 = Inr spot_requests
        \<and> fst (run_script ec2 now py calls) = Inr out \<longrightarrow>
        (\<forall>d\<in>set out.
              RegionDemandScore d =
                length (recent_terminated (now - timedelta_minutes (int LOOKBACK_MINUTES)) spot_requests)
            \<and> AZInterruptionRate d =
                length (filter (\<lambda>r. rq_LaunchedAvailabilityZone r = AvailabilityZone d)
                    (recent_terminated (now - timedelta_minutes (int LOOKBACK_MINUTES)) spot_requests))))"
proof -
  let ?recent = "recent_terminated (now - timedelta_minutes (int LOOKBACK_MINUTES)) spot_requests"
  let ?P = "\<lambda>d. RegionDemandScore d = length ?recent
            \<and> AZInterruptionRate d =
                length (filter (\<lambda>r. rq_LaunchedAvailabilityZone r = AvailabilityZone d) ?recent)"
  have 1: "\<forall>z. dict_get (az_counter_loop Map.empty ?recent) z 0
              = length (filter (\<lambda>r. rq_LaunchedAvailabilityZone r = z) ?recent)"
    by (simp add: az_counter_loop_get dict_get_empty)
  have 2: "\<forall>z. (az_counter_loop Map.empty ?recent z = None)
              = (z \<notin> rq_LaunchedAvailabilityZone ` set ?recent)"
    using az_counter_loop_dom[of Map.empty ?recent] by (auto simp: domIff)
  have 3: "\<forall>req\<in>set ?recent. rq_LaunchedAvailabilityZone req = None \<longrightarrow>
            1 \<le> dict_get (az_counter_loop Map.empty ?recent) None 0"
    using zone_count_bounds(1)[of _ ?recent] by metis
  have 4: "\<forall>d\<in>set out. ?P d"
    if b: "describe_spot_instance_requests ec2 = Inr spot_requests"
      and r: "fst (run_script ec2 now py calls) = Inr out"
  proof -
    obtain c where "run_script ec2 now py calls = (Inr out, c)"
      using r by (metis prod.collapse)
    from run_script_Inr[OF this] b obtain account_id where
      l: "enrich_loop ec2 account_id py spot_requests (length ?recent)
              (az_counter_loop Map.empty ?recent) ?recent []
              (calls @ [GetCallerIdentity, DescribeSpotInstanceRequests]) = (Inr out, c)"
      by auto
    then have l': "fst (enrich_loop ec2 account_id py spot_requests (length ?recent)
              (az_counter_loop Map.empty ?recent) ?recent []
              (calls @ [GetCallerIdentity, DescribeSpotInstanceRequests])) = Inr out"
      by simp
    have e: "\<forall>d\<in>set ([]::enriched list). ?P d"
      by simp
    have step: "\<forall>req\<in>set ?recent. \<forall>calls d.
       fst (enrich_termination_data ec2 account_id py req spot_requests (length ?recent)
              (dict_get (az_counter_loop Map.empty ?recent) (rq_LaunchedAvailabilityZone req) 0) calls) = Inr d
       \<longrightarrow> ?P d"
    proof (intro ballI allI impI)
      fix req calls d
      assume d: "fst (enrich_termination_data ec2 account_id py req spot_requests (length ?recent)
              (dict_get (az_counter_loop Map.empty ?recent) (rq_LaunchedAvailabilityZone req) 0) calls) = Inr d"
      show "?P d"
        unfolding enrich_Inr(5)[OF d] enrich_Inr(6)[OF d] enrich_Inr(7)[OF d]
        using 1 by simp
    qed
    from enrich_loop_all[where P = ?P, OF l' e step] show ?thesis .
  qed
  from 1 2 3 4 show ?thesis by blast
qed

theorem zone_buckets_include_absent_zone_witness:
  "rq_LaunchedAvailabilityZone ev_nozone = None
   \<and> dict_get (az_counter_loop Map.empty [ev0, ev_nozone]) None 0 = 1
   \<and> dict_get (az_counter_loop Map.empty [ev0, ev_nozone]) (Some ''ap-south-1a'') 0 = 1
   \<and> dict_get (az_counter_loop Map.empty [ev0, ev_nozone]) (Some ''ap-south-1b'') 0 = 0
   \<and> (\<exists>d0 d1. fst (run_script ec2_ok now0 exact_float []) = Inr [d0, d1]
         \<and> RegionDemandScore d0 = 2 \<and> RegionDemandScore d1 = 2
         \<and> AZInterruptionRate d0 = 1 \<and> AZInterruptionRate d1 = 1)"
proof -
  have n: "ev_nozone \<in> set [ev0, ev_nozone]" by simp
  from zone_buckets_include_absent_zone[of now0 "[ev0, ev_nozone]"] n example_zones(3)
  have a: "dict_get (az_counter_loop Map.empty [ev0, ev_nozone]) None 0
             = length (filter (\<lambda>r. rq_LaunchedAvailabilityZone r = None) [ev0, ev_nozone])"
    and b: "dict_get (az_counter_loop Map.empty [ev0, ev_nozone]) (Some ''ap-south-1a'') 0
             = length (filter (\<lambda>r. rq_LaunchedAvailabilityZone r = Some ''ap-south-1a'') [ev0, ev_nozone])"
    and c: "dict_get (az_counter_loop Map.empty [ev0, ev_nozone]) (Some ''ap-south-1b'') 0
             = length (filter (\<lambda>r. rq_LaunchedAvailabilityZone r = Some ''ap-south-1b'') [ev0, ev_nozone])"
    and p: "1 \<le> dict_get (az_counter_loop Map.empty [ev0, ev_nozone]) None 0"
    unfolding recent_nozone by blast+
  obtain out c' where r: "run_script ec2_ok now0 exact_float [] = (Inr out, c')"
    using run_example_returns by blast
  from run_example_two[OF r] obtain d0 d1 where o: "out = [d0, d1]"
    by (metis (no_types, opaque_lifting) One_nat_def Suc_1 length_0_conv length_Suc_conv)
  have h: "fst (run_script ec2_ok now0 exact_float []) = Inr out" using r by simp
  have l: "describe_spot_instance_requests ec2_ok = Inr [ev0, ev10]"
    by (simp add: ec2_ok_def)
  have z: "AvailabilityZone d0 = Some ''ap-south-1a''" "AvailabilityZone d1 = Some ''ap-south-1b''"
    using run_example_zones[OF r[unfolded o]] by simp_all
  from zone_buckets_include_absent_zone[of now0 "[ev0, ev10]" ec2_ok exact_float "[]" out] l h
  have "\<forall>d\<in>set out. RegionDemandScore d = length [ev0, ev10]
            \<and> AZInterruptionRate d =
                length (filter (\<lambda>r. rq_LaunchedAvailabilityZone r = AvailabilityZone d) [ev0, ev10])"
    unfolding recent_example by blast
  then have "RegionDemandScore d0 = 2 \<and> RegionDemandScore d1 = 2
         \<and> AZInterruptionRate d0 = 1 \<and> AZInterruptionRate d1 = 1"
    unfolding o by (simp add: example_zones z)
  then show ?thesis
    using a b c o h by (simp add: example_zones)
qed


text \<open>
  The request without a zone is counted in the bucket whose key is the absent zone.
\<close>

theorem zone_bucket_absent_zone_counterexample:
  "rq_LaunchedAvailabilityZone ev_nozone = None
   \<and> az_counter_loop Map.empty
        (recent_terminated (now0 - timedelta_minutes (int LOOKBACK_MINUTES)) [ev0, ev_nozone]) None = Some 1"
  unfolding recent_nozone by (simp add: ev0_def ev_nozone_def dict_get_def)

text \<open>
  C3. A failure of the price-history call, or of the zone-mapping call, is not turned into
  a sentinel: on the concrete batch the exception leaves the run, which returns no record,
  whereas the same batch is enriched when only the instance-type and offering calls fail.
\<close>

theorem lookup_failure_aborts_run:
  "fst (run_script ec2_price_fails now0 exact_float []) = Inl (ClientError ''RequestLimitExceeded'')
   \<and> fst (run_script ec2_zones_fail now0 exact_float []) = Inl (ClientError ''RequestLimitExceeded'')
   \<and> \<not> isl (fst (run_script ec2_ok now0 exact_float []))"
proof -
  have 1: "fst (run_script ec2_price_fails now0 exact_float []) = Inl (ClientError ''RequestLimitExceeded'')"
  proof (rule run_script_raises[where account_id = "''123456789012''" and spot_requests = "[ev0, ev10]"
        and req = ev0 and reqs = "[ev10]"])
    show "\<forall>rds azs calls. fst (enrich_termination_data ec2_price_fails ''123456789012'' exact_float ev0
            [ev0, ev10] rds azs calls) = Inl (ClientError ''RequestLimitExceeded'')"
      by (intro allI, rule enrich_raises_prices[where zones = "[(''ap-south-1a'', ''aps1-az1''), (''ap-south-1b'', ''aps1-az2'')]"
            and zone = "''ap-south-1a''"])
         (simp_all add: ec2_price_fails_def ec2_ok_def ev0_def)
  qed (simp_all add: ec2_price_fails_def ec2_ok_def recent_example)
  have 2: "fst (run_script ec2_zones_fail now0 exact_float []) = Inl (ClientError ''RequestLimitExceeded'')"
  proof (rule run_script_raises[where account_id = "''123456789012''" and spot_requests = "[ev0, ev10]"
        and req = ev0 and reqs = "[ev10]"])
    show "\<forall>rds azs calls. fst (enrich_termination_data ec2_zones_fail ''123456789012'' exact_float ev0
            [ev0, ev10] rds azs calls) = Inl (ClientError ''RequestLimitExceeded'')"
      by (intro allI, rule enrich_raises_zones) (simp add: ec2_zones_fail_def ec2_ok_def)
  qed (simp_all add: ec2_zones_fail_def ec2_ok_def recent_example)
  obtain out c where r: "run_script ec2_ok now0 exact_float [] = (Inr out, c)"
    using run_example_returns by blast
  with 1 2 show ?thesis by simp
qed

text \<open>
  C4 (amended). For an enriched event, the launch price is the price of the first and the
  termination price the price of the last sample of the provider's answer sorted by
  timestamp: samples of the answer with the least and the greatest timestamp, the same for
  every return order when the timestamps differ. Both are the requested spot price when
  the answer is empty. The stored trend is the termination price minus the launch price
  rounded to six decimals by the interpreter; it is within half a unit of the sixth decimal
  of the exact difference, up to the errors of the float subtraction and of the rounding.
\<close>

theorem launch_and_termination_price:
  assumes "fst (enrich_termination_data ec2 account_id py req all_requests rds azs calls) = Inr d"
  shows "\<exists>zone response.
           rq_LaunchedAvailabilityZone req = Some zone
         \<and> describe_spot_price_history ec2 (rq_InstanceType req) zone
             (rq_StatusUpdateTime req - timedelta_hours 6) (rq_StatusUpdateTime req) = Inr response
         \<and> (response = [] \<longrightarrow>
               SpotPriceAtLaunch d = rq_SpotPrice req \<and> SpotPriceAtTermination d = rq_SpotPrice req)
         \<and> (response \<noteq> [] \<longrightarrow>
               SpotPriceAtLaunch d = ps_SpotPrice (hd (sort_key Timestamp response))
             \<and> SpotPriceAtTermination d = ps_SpotPrice (last (sort_key Timestamp response))
             \<and> hd (sort_key Timestamp response) \<in> set response
             \<and> last (sort_key Timestamp response) \<in> set response
             \<and> (\<forall>s\<in>set response.
                   Timestamp (hd (sort_key Timestamp response)) \<le> Timestamp s
                 \<and> Timestamp s \<le> Timestamp (last (sort_key Timestamp response))))
         \<and> (\<forall>response'. mset response' = mset response \<and> distinct (map Timestamp response) \<longrightarrow>
               sort_key Timestamp response' = sort_key Timestamp response)
         \<and> SpotPriceTrend d
             = float_round py (float_sub py (SpotPriceAtTermination d) (SpotPriceAtLaunch d)) 6
         \<and> (\<bar>float_sub py (SpotPriceAtTermination d) (SpotPriceAtLaunch d)
                - (SpotPriceAtTermination d - SpotPriceAtLaunch d)\<bar> \<le> eps
              \<and> \<bar>SpotPriceTrend d
                  - float_sub py (SpotPriceAtTermination d) (SpotPriceAtLaunch d)\<bar> \<le> 5 / 10 ^ 7 + eps
              \<longrightarrow>
             \<bar>SpotPriceTrend d - (SpotPriceAtTermination d - SpotPriceAtLaunch d)\<bar>
               \<le> 5 / 10 ^ 7 + 2 * eps)"
proof -
  from enrich_prices[OF assms] obtain zone response where
    z: "rq_LaunchedAvailabilityZone req = Some zone"
    and r: "describe_spot_price_history ec2 (rq_InstanceType req) zone
             (rq_StatusUpdateTime req - timedelta_hours 6) (rq_StatusUpdateTime req) = Inr response"
    and l: "SpotPriceAtLaunch d =
              spot_price_at_launch (rq_SpotPrice req) (map ps_SpotPrice (sort_key Timestamp response))"
    and t: "SpotPriceAtTermination d =
              spot_price_at_termination (rq_SpotPrice req) (map ps_SpotPrice (sort_key Timestamp response))"
    and tr: "SpotPriceTrend d =
              float_round py (price_trend py (rq_SpotPrice req)
                                (map ps_SpotPrice (sort_key Timestamp response))) 6"
    by blast
  let ?ph = "sort_key Timestamp response"
  have e: "response = [] \<longrightarrow>
               SpotPriceAtLaunch d = rq_SpotPrice req \<and> SpotPriceAtTermination d = rq_SpotPrice req"
    using l t by (simp add: spot_price_at_launch_def spot_price_at_termination_def)
  have n: "response \<noteq> [] \<longrightarrow>
               SpotPriceAtLaunch d = ps_SpotPrice (hd ?ph)
             \<and> SpotPriceAtTermination d = ps_SpotPrice (last ?ph)
             \<and> hd ?ph \<in> set response \<and> last ?ph \<in> set response
             \<and> (\<forall>s\<in>set response. Timestamp (hd ?ph) \<le> Timestamp s \<and> Timestamp s \<le> Timestamp (last ?ph))"
  proof
    assume ne: "response \<noteq> []"
    then have ne': "?ph \<noteq> []" by (metis length_0_conv length_sort)
    have 1: "SpotPriceAtLaunch d = ps_SpotPrice (hd ?ph)"
      using l ne' by (simp add: spot_price_at_launch_def hd_map)
    have 2: "SpotPriceAtTermination d = ps_SpotPrice (last ?ph)"
      using t ne' by (simp add: spot_price_at_termination_def last_map)
    have 3: "hd ?ph \<in> set response" "last ?ph \<in> set response"
      using hd_in_set[OF ne'] last_in_set[OF ne'] by simp_all
    have 4: "\<forall>s\<in>set response. Timestamp (hd ?ph) \<le> Timestamp s \<and> Timestamp s \<le> Timestamp (last ?ph)"
    proof
      fix s assume "s \<in> set response"
      then have "s \<in> set ?ph" by simp
      moreover have "sorted (map Timestamp ?ph)" by simp
      ultimately show "Timestamp (hd ?ph) \<le> Timestamp s \<and> Timestamp s \<le> Timestamp (last ?ph)"
        by (rule sorted_key_hd_last[rotated])
    qed
    from 1 2 3 4 show "SpotPriceAtLaunch d = ps_SpotPrice (hd ?ph)
             \<and> SpotPriceAtTermination d = ps_SpotPrice (last ?ph)
             \<and> hd ?ph \<in> set response \<and> last ?ph \<in> set response
             \<and> (\<forall>s\<in>set response. Timestamp (hd ?ph) \<le> Timestamp s \<and> Timestamp s \<le> Timestamp (last ?ph))"
      by blast
  qed
  have o: "\<forall>response'. mset response' = mset response \<and> distinct (map Timestamp response) \<longrightarrow>
               sort_key Timestamp response' = ?ph"
    using sort_key_order_independent by blast
  have q: "SpotPriceTrend d
             = float_round py (float_sub py (SpotPriceAtTermination d) (SpotPriceAtLaunch d)) 6"
    using tr l t by (simp add: price_trend_def)
  have x: "\<bar>float_sub py (SpotPriceAtTermination d) (SpotPriceAtLaunch d)
                - (SpotPriceAtTermination d - SpotPriceAtLaunch d)\<bar> \<le> eps
              \<and> \<bar>SpotPriceTrend d
                  - float_sub py (SpotPriceAtTermination d) (SpotPriceAtLaunch d)\<bar> \<le> 5 / 10 ^ 7 + eps
              \<longrightarrow>
             \<bar>SpotPriceTrend d - (SpotPriceAtTermination d - SpotPriceAtLaunch d)\<bar>
               \<le> 5 / 10 ^ 7 + 2 * eps"
    by linarith
  from z r e n o q x show ?thesis by blast
qed

theorem launch_and_termination_price_witness:
  "\<exists>d. fst (enrich_termination_data ec2_ok ''123456789012'' exact_float ev0 [ev0, ev10] 2 1 []) = Inr d
       \<and> SpotPriceAtLaunch d = 3 / 100 \<and> SpotPriceAtTermination d = 5 / 100
       \<and> SpotPriceTrend d = 2 / 100"
proof -
  obtain d c where "enrich_termination_data ec2_ok ''123456789012'' exact_float ev0 [ev0, ev10] 2 1 [] = (Inr d, c)"
    using enrich_example_returns[of ev0] by blast
  then have h: "fst (enrich_termination_data ec2_ok ''123456789012'' exact_float ev0 [ev0, ev10] 2 1 []) = Inr d"
    by simp
  have ne: "samples \<noteq> []" by (simp add: samples_def)
  from launch_and_termination_price[OF h, of 0] obtain zone response where
    z: "rq_LaunchedAvailabilityZone ev0 = Some zone"
    and r: "describe_spot_price_history ec2_ok (rq_InstanceType ev0) zone
             (rq_StatusUpdateTime ev0 - timedelta_hours 6) (rq_StatusUpdateTime ev0) = Inr response"
    and n: "response \<noteq> [] \<longrightarrow>
               SpotPriceAtLaunch d = ps_SpotPrice (hd (sort_key Timestamp response))
             \<and> SpotPriceAtTermination d = ps_SpotPrice (last (sort_key Timestamp response))"
    and q: "SpotPriceTrend d
             = float_round exact_float (float_sub exact_float (SpotPriceAtTermination d) (SpotPriceAtLaunch d)) 6"
    by blast
  from z example_zones(1) have "zone = ''ap-south-1a''" by simp
  with r example_prices(1) have "response = samples" by simp
  with n ne have lt: "SpotPriceAtLaunch d = 3 / 100" "SpotPriceAtTermination d = 5 / 100"
    by (simp_all add: sorted_samples)
  have "exact_round (5 / 100 - 3 / 100) 6 = 2 / 100"
    by (simp add: exact_round_def round_half_even_def)
  with q lt have "SpotPriceTrend d = 2 / 100"
    by (simp add: exact_float_simps)
  with h lt show ?thesis by blast
qed

text \<open>
  For the two prices 0 and 0.0000024 the stored trend is 0.000002, which is not their
  difference.
\<close>

theorem trend_is_rounded_counterexample:
  "\<not> isl (fst (enrich_termination_data ec2_fine ''123456789012'' exact_float ev0 [ev0, ev10] 2 1 []))
   \<and> SpotPriceAtTermination
        (projr (fst (enrich_termination_data ec2_fine ''123456789012'' exact_float ev0 [ev0, ev10] 2 1 [])))
     - SpotPriceAtLaunch
        (projr (fst (enrich_termination_data ec2_fine ''123456789012'' exact_float ev0 [ev0, ev10] 2 1 [])))
       = 24 / 10000000
   \<and> SpotPriceTrend
        (projr (fst (enrich_termination_data ec2_fine ''123456789012'' exact_float ev0 [ev0, ev10] 2 1 [])))
       = 2 / 1000000"
proof -
  obtain d c where "enrich_termination_data ec2_fine ''123456789012'' exact_float ev0 [ev0, ev10] 2 1 [] = (Inr d, c)"
    using enrich_fine_returns by blast
  then have h: "fst (enrich_termination_data ec2_fine ''123456789012'' exact_float ev0 [ev0, ev10] 2 1 []) = Inr d"
    by simp
  have s: "describe_spot_price_history ec2_fine (rq_InstanceType ev0) ''ap-south-1a''
             (rq_StatusUpdateTime ev0 - timedelta_hours 6) (rq_StatusUpdateTime ev0) = Inr samples_fine"
    by (simp add: ec2_fine_def)
  from enrich_example_prices(1,2)[OF h s]
  have lt: "SpotPriceAtLaunch d = 0" "SpotPriceAtTermination d = 24 / 10000000"
    by (simp_all add: sorted_samples_fine spot_price_at_launch_def spot_price_at_termination_def)
  from enrich_prices[OF h] s example_zones(1)
  have "SpotPriceTrend d = float_round exact_float
          (price_trend exact_float (rq_SpotPrice ev0) (map ps_SpotPrice (sort_key Timestamp samples_fine))) 6"
    by auto
  then have "SpotPriceTrend d = exact_round (24 / 10000000) 6"
    by (simp add: sorted_samples_fine price_trend_def spot_price_at_launch_def
          spot_price_at_termination_def exact_float_simps)
  also have "\<dots> = 2 / 1000000"
    by (simp add: exact_round_def round_half_even_def)
  finally have tr: "SpotPriceTrend d = 2 / 1000000" .
  show ?thesis
    by (simp only: h sum.sel sum.disc lt tr) simp
qed




text \<open>
  C6. The uptime class of an enriched event is \<open>VeryShort\<close> exactly below 30 minutes,
  \<open>Short\<close> exactly from 30 up to but excluding 120, and \<open>Long\<close> exactly from 120 on; 30
  itself is \<open>Short\<close> and 120 itself is \<open>Long\<close>.
\<close>

theorem uptime_class_thresholds:
  assumes "fst (enrich_termination_data ec2 account_id py req all_requests rds azs calls) = Inr d"
  shows "(UptimeClass d = ''VeryShort'') = (UptimeMinutes d < 30)
       \<and> (UptimeClass d = ''Short'') = (30 \<le> UptimeMinutes d \<and> UptimeMinutes d < 120)
       \<and> (UptimeClass d = ''Long'') = (120 \<le> UptimeMinutes d)
       \<and> uptime_class 30 = ''Short'' \<and> uptime_class 120 = ''Long''"
  using enrich_Inr(3)[OF assms] by (simp add: uptime_class_def)

theorem uptime_class_thresholds_witness:
  "\<exists>d. fst (enrich_termination_data ec2_ok ''123456789012'' exact_float ev10 [ev0, ev10] 2 1 []) = Inr d
       \<and> UptimeMinutes d = 30 \<and> UptimeClass d = ''Short''"
proof -
  obtain d c where "enrich_termination_data ec2_ok ''123456789012'' exact_float ev10 [ev0, ev10] 2 1 [] = (Inr d, c)"
    using enrich_example_returns[of ev10] by blast
  then have h: "fst (enrich_termination_data ec2_ok ''123456789012'' exact_float ev10 [ev0, ev10] 2 1 []) = Inr d"
    by simp
  have u: "UptimeMinutes d = 30"
    using enrich_Inr(1)[OF h]
    by (simp add: ev10_def uptime_minutes_def exact_float_simps exact_round_def round_half_even_def)
  with uptime_class_thresholds[OF h] h show ?thesis by simp
qed

text \<open>
  C7. An enriched event is short-lived exactly when its uptime is below 60 minutes, whatever
  its uptime class: at 90 minutes the class is \<open>Short\<close> and the event is not short-lived.
\<close>

theorem short_lived_threshold:
  assumes "fst (enrich_termination_data ec2 account_id py req all_requests rds azs calls) = Inr d"
  shows "IsShortLived d = (UptimeMinutes d < 60)
       \<and> (UptimeMinutes d = 90 \<longrightarrow> UptimeClass d = ''Short'' \<and> \<not> IsShortLived d)"
  using enrich_Inr(2,3)[OF assms] by (simp add: is_short_lived_def uptime_class_def)

theorem short_lived_threshold_witness:
  "\<exists>d. fst (enrich_termination_data ec2_ok ''123456789012'' exact_float ev0 [ev0, ev10] 2 1 []) = Inr d
       \<and> UptimeMinutes d = 90 \<and> UptimeClass d = ''Short'' \<and> IsShortLived d = False"
proof -
  obtain d c where "enrich_termination_data ec2_ok ''123456789012'' exact_float ev0 [ev0, ev10] 2 1 [] = (Inr d, c)"
    using enrich_example_returns[of ev0] by blast
  then have h: "fst (enrich_termination_data ec2_ok ''123456789012'' exact_float ev0 [ev0, ev10] 2 1 []) = Inr d"
    by simp
  have u: "UptimeMinutes d = 90"
    using enrich_Inr(1)[OF h]
    by (simp add: ev0_def uptime_minutes_def exact_float_simps exact_round_def round_half_even_def)
  with short_lived_threshold[OF h] h show ?thesis by simp
qed

text \<open>
  C8 (amended). The zone mapping is fetched once for every enriched event: a run that
  returns n records, one per filtered request, has asked for the mapping n times.
\<close>

theorem zone_mapping_fetched_per_event:
  assumes "run_script ec2 now py calls = (Inr out, calls')"
  shows "\<exists>spot_requests. describe_spot_instance_requests ec2 = Inr spot_requests
           \<and> length out =
               length (recent_terminated (now - timedelta_minutes (int LOOKBACK_MINUTES)) spot_requests)
           \<and> az_calls calls' = az_calls calls + length out"
proof -
  from run_script_Inr[OF assms] obtain account_id spot_requests where
    b: "describe_spot_instance_requests ec2 = Inr spot_requests" and
    l: "enrich_loop ec2 account_id py spot_requests
              (length (recent_terminated (now - timedelta_minutes (int LOOKBACK_MINUTES)) spot_requests))
              (az_counter_loop Map.empty
                 (recent_terminated (now - timedelta_minutes (int LOOKBACK_MINUTES)) spot_requests))
              (recent_terminated (now - timedelta_minutes (int LOOKBACK_MINUTES)) spot_requests) []
              (calls @ [GetCallerIdentity, DescribeSpotInstanceRequests]) = (Inr out, calls')"
    by blast
  from enrich_loop_calls[OF l] have "length out =
       length (recent_terminated (now - timedelta_minutes (int LOOKBACK_MINUTES)) spot_requests)"
    by simp
  with b run_script_calls[OF assms] show ?thesis by blast
qed

theorem zone_mapping_fetched_per_event_witness:
  "\<exists>out calls'. run_script ec2_ok now0 exact_float [] = (Inr out, calls')
      \<and> length out = 2 \<and> az_calls calls' = 2"
proof -
  obtain out c where r: "run_script ec2_ok now0 exact_float [] = (Inr out, c)"
    using run_example_returns by blast
  from zone_mapping_fetched_per_event[OF r] have "az_calls c = az_calls [] + length out"
    by blast
  with run_example_two[OF r] r show ?thesis
    by (simp add: az_calls_def)
qed

text \<open>
  On the concrete batch of two requests the mapping is fetched twice in one run.
\<close>

theorem zone_mapping_once_counterexample:
  "az_calls (snd (run_script ec2_ok now0 exact_float [])) = 2"
proof -
  obtain out c where r: "run_script ec2_ok now0 exact_float [] = (Inr out, c)"
    using run_example_returns by blast
  from run_script_calls[OF r] run_example_two[OF r] r show ?thesis
    by (simp add: az_calls_def)
qed



text \<open>
  C10. In every record that a run returns, the zone count is at least one and at most the
  region count.
\<close>

theorem zone_rate_between_one_and_region:
  assumes "fst (run_script ec2 now py calls) = Inr out"
  shows "\<forall>d\<in>set out. 1 \<le> AZInterruptionRate d \<and> AZInterruptionRate d \<le> RegionDemandScore d"
proof -
  obtain c where "run_script ec2 now py calls = (Inr out, c)"
    using assms by (metis prod.collapse)
  from run_script_Inr[OF this] obtain account_id spot_requests where
    l: "enrich_loop ec2 account_id py spot_requests
              (length (recent_terminated (now - timedelta_minutes (int LOOKBACK_MINUTES)) spot_requests))
              (az_counter_loop Map.empty
                 (recent_terminated (now - timedelta_minutes (int LOOKBACK_MINUTES)) spot_requests))
              (recent_terminated (now - timedelta_minutes (int LOOKBACK_MINUTES)) spot_requests) []
              (calls @ [GetCallerIdentity, DescribeSpotInstanceRequests]) = (Inr out, c)"
    by blast
  let ?recent = "recent_terminated (now - timedelta_minutes (int LOOKBACK_MINUTES)) spot_requests"
  have l': "fst (enrich_loop ec2 account_id py spot_requests (length ?recent)
              (az_counter_loop Map.empty ?recent) ?recent []
              (calls @ [GetCallerIdentity, DescribeSpotInstanceRequests])) = Inr out"
    using l by simp
  have e: "\<forall>d\<in>set ([]::enriched list). 1 \<le> AZInterruptionRate d \<and> AZInterruptionRate d \<le> RegionDemandScore d"
    by simp
  have step: "\<forall>req\<in>set ?recent. \<forall>calls d.
       fst (enrich_termination_data ec2 account_id py req spot_requests (length ?recent)
              (dict_get (az_counter_loop Map.empty ?recent) (rq_LaunchedAvailabilityZone req) 0) calls) = Inr d
       \<longrightarrow> 1 \<le> AZInterruptionRate d \<and> AZInterruptionRate d \<le> RegionDemandScore d"
  proof (intro ballI allI impI)
    fix req calls d
    assume r: "req \<in> set ?recent"
      and d: "fst (enrich_termination_data ec2 account_id py req spot_requests (length ?recent)
              (dict_get (az_counter_loop Map.empty ?recent) (rq_LaunchedAvailabilityZone req) 0) calls) = Inr d"
    show "1 \<le> AZInterruptionRate d \<and> AZInterruptionRate d \<le> RegionDemandScore d"
      unfolding enrich_Inr(5)[OF d] enrich_Inr(6)[OF d]
      using zone_count_bounds[OF r] by simp
  qed
  from enrich_loop_all[where P = "\<lambda>d. 1 \<le> AZInterruptionRate d \<and> AZInterruptionRate d \<le> RegionDemandScore d",
      OF l' e step]
  show ?thesis .
qed

theorem zone_rate_between_one_and_region_witness:
  "\<exists>d0 d1. fst (run_script ec2_ok now0 exact_float []) = Inr [d0, d1]
     \<and> 1 \<le> AZInterruptionRate d0 \<and> AZInterruptionRate d0 \<le> RegionDemandScore d0
     \<and> 1 \<le> AZInterruptionRate d1 \<and> AZInterruptionRate d1 \<le> RegionDemandScore d1"
proof -
  obtain out c where r: "run_script ec2_ok now0 exact_float [] = (Inr out, c)"
    using run_example_returns by blast
  have "length out = 2"
  proof -
    have a: "get_caller_identity ec2_ok = Inr ''123456789012''"
      and b: "describe_spot_instance_requests ec2_ok = Inr [ev0, ev10]"
      by (simp_all add: ec2_ok_def)
    from r have "enrich_loop ec2_ok ''123456789012'' exact_float [ev0, ev10] (length [ev0, ev10])
         (az_counter_loop Map.empty [ev0, ev10]) [ev0, ev10] []
         ([] @ [GetCallerIdentity, DescribeSpotInstanceRequests]) = (Inr out, c)"
      by (simp only: run_script_eq[OF a b] recent_example)
    from enrich_loop_calls[OF this] show ?thesis by simp
  qed
  then obtain d0 d1 where o: "out = [d0, d1]"
    by (metis (no_types, opaque_lifting) One_nat_def Suc_1 length_0_conv length_Suc_conv)
  have h: "fst (run_script ec2_ok now0 exact_float []) = Inr out" using r by simp
  from zone_rate_between_one_and_region[OF h] o h show ?thesis by simp
qed

end
